theory Spec2Isabelle
  imports Complex_Main
begin

text \<open>
  A model of the star field simulation: the stars and their update and reset, the camera's
  projection, the renderer's colour schemes and scheme transition, the star field with
  its star count and its responses to the performance monitor, the performance monitor's
  FPS history, the input handler's target rotation and the validators of the
  configuration panel.  Each class of the program is a record, each method a function
  from the state before to the state after; the definitions keep the names of the
  program, with the class as a prefix where two classes share a name.
\<close>

section \<open>Numbers\<close>

text \<open>
  Every number of the program is a JavaScript double.  The development reads a finite
  double as the real number it denotes and the arithmetic operators as the exact
  operations on reals; rounding and the two infinities are outside the model.  Where a
  function of the program can be handed the value \<open>NaN\<close>, or can store it, the number is
  a \<open>jsnum\<close>, whose operations propagate \<open>NaN\<close> the way the language does: arithmetic
  and \<open>Math.max\<close>, \<open>Math.min\<close>, \<open>Math.floor\<close> return \<open>NaN\<close> as soon as one operand is
  \<open>NaN\<close>, and every comparison with \<open>NaN\<close> (also \<open>===\<close>) is false.
\<close>

datatype jsnum = NaN | Num real

definition js_lift2 :: "(real \<Rightarrow> real \<Rightarrow> real) \<Rightarrow> jsnum \<Rightarrow> jsnum \<Rightarrow> jsnum" where
  "js_lift2 f a b = (case a of NaN \<Rightarrow> NaN | Num x \<Rightarrow> (case b of NaN \<Rightarrow> NaN | Num y \<Rightarrow> Num (f x y)))"

definition js_cmp :: "(real \<Rightarrow> real \<Rightarrow> bool) \<Rightarrow> jsnum \<Rightarrow> jsnum \<Rightarrow> bool" where
  "js_cmp p a b = (case a of NaN \<Rightarrow> False | Num x \<Rightarrow> (case b of NaN \<Rightarrow> False | Num y \<Rightarrow> p x y))"

definition js_add :: "jsnum \<Rightarrow> jsnum \<Rightarrow> jsnum" where
  "js_add = js_lift2 (+)"

definition js_sub :: "jsnum \<Rightarrow> jsnum \<Rightarrow> jsnum" where
  "js_sub = js_lift2 (-)"

definition js_mul :: "jsnum \<Rightarrow> jsnum \<Rightarrow> jsnum" where
  "js_mul = js_lift2 (\<lambda>x y. x * y)"

definition Math_max :: "jsnum \<Rightarrow> jsnum \<Rightarrow> jsnum" where
  "Math_max = js_lift2 max"

definition Math_min :: "jsnum \<Rightarrow> jsnum \<Rightarrow> jsnum" where
  "Math_min = js_lift2 min"

definition Math_floor :: "jsnum \<Rightarrow> jsnum" where
  "Math_floor a = (case a of NaN \<Rightarrow> NaN | Num x \<Rightarrow> Num (of_int \<lfloor>x\<rfloor>))"

definition js_lt :: "jsnum \<Rightarrow> jsnum \<Rightarrow> bool" where
  "js_lt = js_cmp (<)"

definition js_gt :: "jsnum \<Rightarrow> jsnum \<Rightarrow> bool" where
  "js_gt = js_cmp (>)"

definition js_strict_eq :: "jsnum \<Rightarrow> jsnum \<Rightarrow> bool" where
  "js_strict_eq = js_cmp (=)"

definition isNaN :: "jsnum \<Rightarrow> bool" where
  "isNaN a = (case a of NaN \<Rightarrow> True | Num x \<Rightarrow> False)"

text \<open>\<open>Math.round\<close> rounds to the nearest integer, a tie towards plus infinity.\<close>

definition Math_round :: "real \<Rightarrow> real" where
  "Math_round x = of_int \<lfloor>x + 1 / 2\<rfloor>"

text \<open>
  \<open>Math.random()\<close> is a draw from a supply of numbers of \<open>[0, 1)\<close>: the supply is a
  sequence, a draw returns its head and leaves the rest.
\<close>

type_synonym rng = "nat \<Rightarrow> real"

definition Math_random :: "rng \<Rightarrow> real \<times> rng" where
  "Math_random g = (g 0, \<lambda>n. g (Suc n))"

definition rng_ok :: "rng \<Rightarrow> bool" where
  "rng_ok g = (\<forall>n. 0 \<le> g n \<and> g n < 1)"

section \<open>Camera\<close>

record vec3 =
  vx :: real
  vy :: real
  vz :: real

record Camera =
  fov :: real
  aspect :: real
  near :: real
  far :: real
  rotationX :: real
  rotationY :: real
  canvasWidth :: real
  canvasHeight :: real
  focalLength :: real

definition updateProjection :: "Camera \<Rightarrow> Camera" where
  "updateProjection c =
     c\<lparr>focalLength := canvasHeight c / (2 * tan ((fov c * pi / 180) / 2))\<rparr>"

definition new_Camera :: "real \<Rightarrow> real \<Rightarrow> real \<Rightarrow> real \<Rightarrow> Camera" where
  "new_Camera fov0 aspect0 near0 far0 =
     updateProjection
       \<lparr>fov = fov0, aspect = aspect0, near = near0, far = far0,
        rotationX = 0, rotationY = 0, canvasWidth = 800, canvasHeight = 600,
        focalLength = 600 / (2 * tan ((fov0 * pi / 180) / 2))\<rparr>"

definition applyRotation :: "Camera \<Rightarrow> real \<Rightarrow> real \<Rightarrow> real \<Rightarrow> vec3" where
  "applyRotation c x y z =
     (let cosY = cos (rotationY c);
          sinY = sin (rotationY c);
          rotatedX = x * cosY - z * sinY;
          rotatedZ = x * sinY + z * cosY;
          cosX = cos (rotationX c);
          sinX = sin (rotationX c);
          finalY = y * cosX - rotatedZ * sinX;
          finalZ = y * sinX + rotatedZ * cosX
      in \<lparr>vx = rotatedX, vy = finalY, vz = finalZ\<rparr>)"

definition project3DTo2D :: "Camera \<Rightarrow> real \<Rightarrow> real \<Rightarrow> real \<Rightarrow> vec3 option" where
  "project3DTo2D c x y z =
     (if z \<le> 0 then None
      else
        let rotatedPoint = applyRotation c x y z in
        if vz rotatedPoint \<le> 0 then None
        else
          let projectedX = (vx rotatedPoint * focalLength c) / vz rotatedPoint;
              projectedY = (vy rotatedPoint * focalLength c) / vz rotatedPoint;
              screenX = projectedX + canvasWidth c / 2;
              screenY = projectedY + canvasHeight c / 2
          in Some \<lparr>vx = screenX, vy = screenY, vz = vz rotatedPoint\<rparr>)"

definition setRotation :: "real \<Rightarrow> real \<Rightarrow> Camera \<Rightarrow> Camera" where
  "setRotation rotX rotY c = c\<lparr>rotationX := rotX, rotationY := rotY\<rparr>"

definition updateAspectRatio :: "real \<Rightarrow> real \<Rightarrow> Camera \<Rightarrow> Camera" where
  "updateAspectRatio width height c =
     updateProjection (c\<lparr>canvasWidth := width, canvasHeight := height, aspect := width / height\<rparr>)"

section \<open>Star\<close>

text \<open>
  The fields \<open>x\<close>, \<open>y\<close>, \<open>z\<close> and \<open>speed\<close> of a star carry the prefix \<open>star_\<close>.  The
  functions that call \<open>Math.random\<close> take the supply of random numbers and return what
  is left of it.
\<close>

record Star =
  star_x :: real
  star_y :: real
  star_z :: real
  prevX :: real
  prevY :: real
  star_speed :: real
  maxDistance :: real
  minDistance :: real

definition new_Star :: "real \<Rightarrow> real \<Rightarrow> real \<Rightarrow> rng \<Rightarrow> Star \<times> rng" where
  "new_Star x y z g =
     (let (r, g1) = Math_random g
      in (\<lparr>star_x = x, star_y = y, star_z = z, prevX = x, prevY = y,
           star_speed = r * 0.5 + 0.5, maxDistance = 1000, minDistance = 1\<rparr>, g1))"

definition Star_reset :: "Star \<Rightarrow> rng \<Rightarrow> Star \<times> rng" where
  "Star_reset s g =
     (let s1 = s\<lparr>star_z := maxDistance s\<rparr>;
          range = 500;
          (r1, g1) = Math_random g;
          s2 = s1\<lparr>star_x := (r1 - 0.5) * range * 2\<rparr>;
          (r2, g2) = Math_random g1;
          s3 = s2\<lparr>star_y := (r2 - 0.5) * range * 2\<rparr>;
          s4 = s3\<lparr>prevX := star_x s3, prevY := star_y s3\<rparr>;
          (r3, g3) = Math_random g2
      in (s4\<lparr>star_speed := r3 * 0.5 + 0.5\<rparr>, g3))"

definition Star_update :: "real \<Rightarrow> real \<Rightarrow> Star \<Rightarrow> rng \<Rightarrow> Star \<times> rng" where
  "Star_update speed0 deltaTime s g =
     (let s1 = s\<lparr>prevX := star_x s, prevY := star_y s\<rparr>;
          s2 = s1\<lparr>star_z := star_z s1 - speed0 * star_speed s1 * deltaTime * 60\<rparr>
      in if star_z s2 \<le> minDistance s2 then Star_reset s2 g else (s2, g))"

definition getScreenPosition :: "Star \<Rightarrow> Camera option \<Rightarrow> vec3 option" where
  "getScreenPosition s cam =
     (case cam of
        None \<Rightarrow> None
      | Some c \<Rightarrow> if star_z s \<le> 0 then None else project3DTo2D c (star_x s) (star_y s) (star_z s))"

definition getBrightness :: "Star \<Rightarrow> real" where
  "getBrightness s =
     (let normalizedDistance = (star_z s - minDistance s) / (maxDistance s - minDistance s)
      in max 0 (min 1 (1 - normalizedDistance)))"

definition getSize :: "Star \<Rightarrow> real \<Rightarrow> real" where
  "getSize s baseSize = max 0.5 (baseSize * getBrightness s)"

definition isVisible :: "Star \<Rightarrow> bool" where
  "isVisible s = (star_z s \<ge> minDistance s \<and> star_z s \<le> maxDistance s)"

text \<open>What the constructor and \<open>reset\<close> establish for every star, given draws of \<open>[0, 1)\<close>.\<close>

definition Star_inv :: "Star \<Rightarrow> bool" where
  "Star_inv s = (minDistance s = 1 \<and> maxDistance s = 1000 \<and> 1 / 2 \<le> star_speed s \<and> star_speed s \<le> 1)"

section \<open>Performance monitor\<close>

text \<open>
  The two callbacks of the monitor are closures of the star field.  In the model the
  monitor records whether a callback is installed and \<open>update\<close> returns the notification
  it would have passed to the callback; the star field consumes it
  (\<open>onPerformanceEvent\<close> below).  \<open>performance.memory\<close> is a facility of the host and a
  parameter of \<open>update\<close>.
\<close>

record MemoryInfo =
  mem_used :: real
  mem_total :: real
  mem_limit :: real

record PerfData =
  data_fps :: real
  data_frameTime :: real
  data_type :: string

datatype PerfEvent = LowPerformance PerfData | GoodPerformance PerfData

record PerformanceMonitor =
  frameCount :: real
  fps :: real
  lastFpsUpdate :: real
  fpsHistory :: "real list"
  maxFpsHistory :: real
  memoryInfo :: "MemoryInfo option"
  lastFrameTime :: real
  frameTime :: real
  averageFrameTime :: real
  lowFpsThreshold :: real
  highFrameTimeThreshold :: real
  onLowPerformance :: bool
  onGoodPerformance :: bool

definition new_PerformanceMonitor :: PerformanceMonitor where
  "new_PerformanceMonitor =
     \<lparr>frameCount = 0, fps = 0, lastFpsUpdate = 0, fpsHistory = [], maxFpsHistory = 60,
      memoryInfo = None, lastFrameTime = 0, frameTime = 0, averageFrameTime = 16.67,
      lowFpsThreshold = 30, highFrameTimeThreshold = 33.33,
      onLowPerformance = False, onGoodPerformance = False\<rparr>"

definition getAverageFPS :: "PerformanceMonitor \<Rightarrow> real" where
  "getAverageFPS m =
     (if length (fpsHistory m) = 0 then fps m
      else
        let sum = foldl (\<lambda>a b. a + b) 0 (fpsHistory m)
        in Math_round (sum / real (length (fpsHistory m))))"

definition checkPerformanceThresholds :: "PerformanceMonitor \<Rightarrow> PerfEvent option" where
  "checkPerformanceThresholds m =
     (let avgFps = getAverageFPS m in
      if avgFps < lowFpsThreshold m then
        (if onLowPerformance m
         then Some (LowPerformance \<lparr>data_fps = avgFps, data_frameTime = frameTime m, data_type = ''low_fps''\<rparr>)
         else None)
      else if avgFps > lowFpsThreshold m + 10 then
        (if onGoodPerformance m
         then Some (GoodPerformance \<lparr>data_fps = avgFps, data_frameTime = frameTime m, data_type = ''good_fps''\<rparr>)
         else None)
      else None)"

definition updateMemoryInfo :: "MemoryInfo option \<Rightarrow> PerformanceMonitor \<Rightarrow> PerformanceMonitor" where
  "updateMemoryInfo host_memory m =
     (case host_memory of None \<Rightarrow> m | Some mi \<Rightarrow> m\<lparr>memoryInfo := Some mi\<rparr>)"

text \<open>\<open>push\<close> appends; \<open>shift\<close> removes the first element of the array.\<close>

definition PerformanceMonitor_update ::
  "real \<Rightarrow> MemoryInfo option \<Rightarrow> PerformanceMonitor \<Rightarrow> PerformanceMonitor \<times> PerfEvent option" where
  "PerformanceMonitor_update currentTime host_memory m =
     (let m1 = (if lastFrameTime m > 0 then m\<lparr>frameTime := currentTime - lastFrameTime m\<rparr> else m);
          m2 = m1\<lparr>lastFrameTime := currentTime\<rparr>;
          m3 = m2\<lparr>frameCount := frameCount m2 + 1\<rparr>
      in
        if currentTime - lastFpsUpdate m3 \<ge> 1000 then
          let m4 = m3\<lparr>fps := frameCount m3\<rparr>;
              m5 = m4\<lparr>frameCount := 0, lastFpsUpdate := currentTime\<rparr>;
              m6 = m5\<lparr>fpsHistory := fpsHistory m5 @ [fps m5]\<rparr>;
              m7 = (if real (length (fpsHistory m6)) > maxFpsHistory m6
                    then m6\<lparr>fpsHistory := tl (fpsHistory m6)\<rparr> else m6)
          in (updateMemoryInfo host_memory m7, checkPerformanceThresholds m7)
        else (updateMemoryInfo host_memory m3, None))"

definition setLowPerformanceCallback :: "PerformanceMonitor \<Rightarrow> PerformanceMonitor" where
  "setLowPerformanceCallback m = m\<lparr>onLowPerformance := True\<rparr>"

definition setGoodPerformanceCallback :: "PerformanceMonitor \<Rightarrow> PerformanceMonitor" where
  "setGoodPerformanceCallback m = m\<lparr>onGoodPerformance := True\<rparr>"

definition PerformanceMonitor_reset :: "PerformanceMonitor \<Rightarrow> PerformanceMonitor" where
  "PerformanceMonitor_reset m =
     m\<lparr>frameCount := 0, fps := 0, lastFpsUpdate := 0, fpsHistory := [],
       lastFrameTime := 0, frameTime := 0\<rparr>"

text \<open>A run of the monitor: one \<open>update\<close> per frame, the notifications dropped.\<close>

fun PerformanceMonitor_run ::
  "(real \<times> MemoryInfo option) list \<Rightarrow> PerformanceMonitor \<Rightarrow> PerformanceMonitor" where
  "PerformanceMonitor_run [] m = m"
| "PerformanceMonitor_run ((t, hm) # fs) m = PerformanceMonitor_run fs (fst (PerformanceMonitor_update t hm m))"

text \<open>The bound on the history that the constructor sets up.\<close>

definition pm_inv :: "PerformanceMonitor \<Rightarrow> bool" where
  "pm_inv m = (maxFpsHistory m = 60 \<and> length (fpsHistory m) \<le> 60)"

section \<open>Renderer\<close>

text \<open>
  The drawing calls on the canvas are outside the model; the colour a star is drawn with
  and the state of the colour transition are inside.  The channels \<open>r\<close>, \<open>g\<close>, \<open>b\<close> of a
  colour are the fields \<open>red\<close>, \<open>green\<close>, \<open>blue\<close>.
\<close>

record RGB =
  red :: real
  green :: real
  blue :: real

record RendererConfig =
  baseStarSize :: real
  maxStarSize :: real
  minStarSize :: real
  trailLength :: real
  glowRadius :: real
  colorScheme :: string
  enableTrails :: bool
  enableGlow :: bool
  batchRendering :: bool
  maxBatchSize :: real

record ColorTransition =
  isTransitioning :: bool
  startTime :: real
  duration :: real
  fromScheme :: "string option"
  toScheme :: "string option"
  progress :: real

record Renderer =
  config :: RendererConfig
  colorTransition :: ColorTransition
  lastClearTime :: real
  clearInterval :: real

text \<open>
  The table of colour schemes, in the order of the source: a static scheme has its three
  channels, a dynamic one (\<open>rainbow\<close>, \<open>nebula\<close>) has none.
\<close>

definition colorSchemes :: "(string \<times> RGB option) list" where
  "colorSchemes =
     [(''white'', Some \<lparr>red = 255, green = 255, blue = 255\<rparr>),
      (''blue-white'', Some \<lparr>red = 200, green = 220, blue = 255\<rparr>),
      (''rainbow'', None),
      (''warm'', Some \<lparr>red = 255, green = 220, blue = 180\<rparr>),
      (''cool'', Some \<lparr>red = 180, green = 200, blue = 255\<rparr>),
      (''nebula'', None)]"

definition hasOwnProperty :: "(string \<times> 'a) list \<Rightarrow> string \<Rightarrow> bool" where
  "hasOwnProperty table key = (key \<in> set (map fst table))"

definition new_Renderer :: Renderer where
  "new_Renderer =
     \<lparr>config =
        \<lparr>baseStarSize = 2, maxStarSize = 8, minStarSize = 0.5, trailLength = 0.3,
         glowRadius = 4, colorScheme = ''white'', enableTrails = True, enableGlow = True,
         batchRendering = True, maxBatchSize = 100\<rparr>,
      colorTransition =
        \<lparr>isTransitioning = False, startTime = 0, duration = 1000,
         fromScheme = None, toScheme = None, progress = 0\<rparr>,
      lastClearTime = 0, clearInterval = 16\<rparr>"

text \<open>The remainder operator \<open>%\<close>: the quotient is truncated towards zero.\<close>

definition js_trunc :: "real \<Rightarrow> int" where
  "js_trunc x = (if x \<ge> 0 then \<lfloor>x\<rfloor> else \<lceil>x\<rceil>)"













text \<open>\<open>performance.now()\<close> is the parameter \<open>now\<close>.\<close>

definition setColorScheme :: "string \<Rightarrow> bool \<Rightarrow> real \<Rightarrow> Renderer \<Rightarrow> Renderer" where
  "setColorScheme scheme smooth now rd =
     (if \<not> hasOwnProperty colorSchemes scheme then rd
      else if scheme = colorScheme (config rd) then rd
      else
        let rd1 =
              (if smooth \<and> \<not> isTransitioning (colorTransition rd) then
                 rd\<lparr>colorTransition :=
                      (colorTransition rd)
                        \<lparr>isTransitioning := True, startTime := now,
                         fromScheme := Some (colorScheme (config rd)),
                         toScheme := Some scheme, progress := 0\<rparr>\<rparr>
               else rd)
        in rd1\<lparr>config := (config rd1)\<lparr>colorScheme := scheme\<rparr>\<rparr>)"

definition setTrailsEnabled :: "bool \<Rightarrow> Renderer \<Rightarrow> Renderer" where
  "setTrailsEnabled enabled rd = rd\<lparr>config := (config rd)\<lparr>enableTrails := enabled\<rparr>\<rparr>"

definition setGlowEnabled :: "bool \<Rightarrow> Renderer \<Rightarrow> Renderer" where
  "setGlowEnabled enabled rd = rd\<lparr>config := (config rd)\<lparr>enableGlow := enabled\<rparr>\<rparr>"

definition setBaseStarSize :: "real \<Rightarrow> Renderer \<Rightarrow> Renderer" where
  "setBaseStarSize size0 rd = rd\<lparr>config := (config rd)\<lparr>baseStarSize := max 0.5 (min 5 size0)\<rparr>\<rparr>"

definition calculateStarSize :: "Renderer \<Rightarrow> real \<Rightarrow> real \<Rightarrow> real" where
  "calculateStarSize rd brightness baseSize =
     (let scaledSize = baseSize * baseStarSize (config rd)
      in max (minStarSize (config rd)) (min (maxStarSize (config rd)) scaledSize))"

section \<open>Star field\<close>

record PerformanceOptimizations =
  autoOptimize :: bool
  minStarCount :: real
  reductionStep :: real
  recoveryDelay :: real
  lastOptimization :: real
  lastRecovery :: real

record RenderingOptimizations =
  frustumCulling :: bool
  ro_batchRendering :: bool
  ro_maxBatchSize :: real
  skipFrames :: real
  frameSkipCounter :: real

text \<open>
  \<open>starCount\<close> and \<open>speed\<close> are stored as they come out of \<open>Math.max\<close> and \<open>Math.min\<close>,
  so they can hold \<open>NaN\<close>.  The canvas is its two dimensions.
\<close>

record StarField =
  canvas_width :: real
  canvas_height :: real
  stars :: "Star list"
  starCount :: jsnum
  originalStarCount :: jsnum
  speed :: jsnum
  isRunning :: bool
  lastTime :: real
  camera :: Camera
  renderer :: Renderer
  performanceMonitor :: PerformanceMonitor
  performanceOptimizations :: PerformanceOptimizations
  renderingOptimizations :: RenderingOptimizations

definition createRandomStar :: "rng \<Rightarrow> Star \<times> rng" where
  "createRandomStar g =
     (let range = 500;
          (r1, g1) = Math_random g;
          x = (r1 - 0.5) * range * 2;
          (r2, g2) = Math_random g1;
          y = (r2 - 0.5) * range * 2;
          (r3, g3) = Math_random g2;
          z = r3 * 1000
      in new_Star x y z g3)"

text \<open>
  The loop \<open>for (let i = i0; i < n; i++) this.stars.push(this.createRandomStar())\<close> of
  \<open>initialize\<close> and of \<open>setStarCount\<close>.  The condition is false as soon as \<open>i\<close> or \<open>n\<close>
  is \<open>NaN\<close>.
\<close>

function push_random_stars :: "jsnum \<Rightarrow> jsnum \<Rightarrow> Star list \<Rightarrow> rng \<Rightarrow> Star list \<times> rng" where
  "push_random_stars i n ss g =
     (if js_lt i n then
        let (star, g1) = createRandomStar g
        in push_random_stars (js_add i (Num 1)) n (ss @ [star]) g1
      else (ss, g))"
  by pat_completeness auto
termination
proof (relation "measure (\<lambda>(i, n, ss, g). case i of NaN \<Rightarrow> 0 | Num a \<Rightarrow> (case n of NaN \<Rightarrow> 0 | Num b \<Rightarrow> nat \<lceil>b - a\<rceil>))")
  show "wf (measure (\<lambda>(i, n, ss, g). case i of NaN \<Rightarrow> 0 | Num a \<Rightarrow> (case n of NaN \<Rightarrow> 0 | Num b \<Rightarrow> nat \<lceil>b - a\<rceil>)))"
    by simp
next
  fix i n :: jsnum and ss :: "Star list" and g :: rng and x :: "Star \<times> rng" and xa :: Star and y :: rng
  assume lt: "js_lt i n"
  then obtain a b where ab: "i = Num a" "n = Num b" "a < b"
    by (cases i; cases n) (simp_all add: js_lt_def js_cmp_def)
  have "b - (a + 1) = (b - a) - 1"
    by simp
  then have "\<lceil>b - (a + 1)\<rceil> = \<lceil>b - a\<rceil> - 1"
    by (simp only: ceiling_diff_one)
  moreover have "0 < \<lceil>b - a\<rceil>"
    using ab(3) by (simp add: ceiling_less_iff)
  ultimately have "nat \<lceil>b - (a + 1)\<rceil> < nat \<lceil>b - a\<rceil>"
    by simp
  then show "((js_add i (Num 1), n, ss @ [xa], y), (i, n, ss, g))
      \<in> measure (\<lambda>(i, n, ss, g). case i of NaN \<Rightarrow> 0 | Num a \<Rightarrow> (case n of NaN \<Rightarrow> 0 | Num b \<Rightarrow> nat \<lceil>b - a\<rceil>))"
    using ab by (simp add: js_add_def js_lift2_def)
qed

declare push_random_stars.simps [simp del]

definition initialize :: "StarField \<Rightarrow> rng \<Rightarrow> StarField \<times> rng" where
  "initialize sf g =
     (let sf1 = sf\<lparr>stars := []\<rparr>;
          (ss, g1) = push_random_stars (Num 0) (starCount sf1) (stars sf1) g
      in (sf1\<lparr>stars := ss\<rparr>, g1))"

definition setupPerformanceCallbacks :: "StarField \<Rightarrow> StarField" where
  "setupPerformanceCallbacks sf =
     sf\<lparr>performanceMonitor :=
          setGoodPerformanceCallback (setLowPerformanceCallback (performanceMonitor sf))\<rparr>"

definition new_StarField :: "real \<Rightarrow> real \<Rightarrow> jsnum \<Rightarrow> rng \<Rightarrow> StarField \<times> rng" where
  "new_StarField width height starCount0 g =
     initialize
       (setupPerformanceCallbacks
          \<lparr>canvas_width = width, canvas_height = height,
           stars = [], starCount = starCount0, originalStarCount = starCount0,
           speed = Num 1.0, isRunning = False, lastTime = 0,
           camera = updateAspectRatio width height (new_Camera 75 (width / height) 0.1 1000),
           renderer = new_Renderer,
           performanceMonitor = new_PerformanceMonitor,
           performanceOptimizations =
             \<lparr>autoOptimize = True, minStarCount = 100, reductionStep = 0.25,
              recoveryDelay = 5000, lastOptimization = 0, lastRecovery = 0\<rparr>,
           renderingOptimizations =
             \<lparr>frustumCulling = True, ro_batchRendering = True, ro_maxBatchSize = 100,
              skipFrames = 0, frameSkipCounter = 0\<rparr>\<rparr>)
       g"

definition getStarCount :: "StarField \<Rightarrow> jsnum" where
  "getStarCount sf = starCount sf"

text \<open>
  \<open>array.splice(start)\<close> removes every element from \<open>start\<close> on.  The start is made an
  integer by truncation, \<open>NaN\<close> counting as 0; a negative start counts from the end.
\<close>

definition splice_from :: "jsnum \<Rightarrow> 'a list \<Rightarrow> 'a list" where
  "splice_from start xs =
     (let len = int (length xs);
          relativeStart = (case start of NaN \<Rightarrow> 0 | Num r \<Rightarrow> js_trunc r);
          actualStart = (if relativeStart < 0 then max (len + relativeStart) 0 else min relativeStart len)
      in take (nat actualStart) xs)"

definition setStarCount :: "jsnum \<Rightarrow> StarField \<Rightarrow> rng \<Rightarrow> StarField \<times> rng" where
  "setStarCount count sf g =
     (let newCount = Math_max (Num 1) (Math_min (Num 5000) (Math_floor count)) in
      if js_strict_eq newCount (starCount sf) then (sf, g)
      else
        let oldCount = starCount sf;
            sf1 = sf\<lparr>starCount := newCount\<rparr>
        in if js_gt newCount oldCount then
             let (ss, g1) = push_random_stars oldCount newCount (stars sf1) g
             in (sf1\<lparr>stars := ss\<rparr>, g1)
           else (sf1\<lparr>stars := splice_from newCount (stars sf1)\<rparr>, g))"

definition setSpeed :: "jsnum \<Rightarrow> StarField \<Rightarrow> StarField" where
  "setSpeed speed0 sf = sf\<lparr>speed := Math_max (Num 0.1) (Math_min (Num 5.0) speed0)\<rparr>"

text \<open>\<open>performance.now()\<close> is the parameter \<open>now\<close> of the two handlers.\<close>

definition handleLowPerformance :: "PerfData \<Rightarrow> real \<Rightarrow> StarField \<Rightarrow> rng \<Rightarrow> StarField \<times> rng" where
  "handleLowPerformance data now sf g =
     (if now - lastOptimization (performanceOptimizations sf) < 2000 then (sf, g)
      else
        let currentCount = getStarCount sf;
            minCount = Num (minStarCount (performanceOptimizations sf));
            (sf1, g1) =
              (if js_gt currentCount minCount then
                 let reductionAmount =
                       Math_max
                         (Math_floor (js_mul currentCount (Num (reductionStep (performanceOptimizations sf)))))
                         (Num 1);
                     newCount = Math_max minCount (js_sub currentCount reductionAmount)
                 in setStarCount newCount sf g
               else (sf, g));
            sf2 =
              (if data_fps data < 20 then
                 sf1\<lparr>renderer := setTrailsEnabled False (setGlowEnabled False (renderer sf1)),
                     renderingOptimizations := (renderingOptimizations sf1)\<lparr>skipFrames := 1\<rparr>\<rparr>
               else sf1)
        in (sf2\<lparr>performanceOptimizations := (performanceOptimizations sf2)\<lparr>lastOptimization := now\<rparr>\<rparr>, g1))"

definition handleGoodPerformance :: "PerfData \<Rightarrow> real \<Rightarrow> StarField \<Rightarrow> rng \<Rightarrow> StarField \<times> rng" where
  "handleGoodPerformance data now sf g =
     (if now - lastRecovery (performanceOptimizations sf) < recoveryDelay (performanceOptimizations sf)
      then (sf, g)
      else
        let currentCount = getStarCount sf;
            originalCount = originalStarCount sf;
            (sf3, g3) =
              (if js_lt currentCount originalCount \<and> data_fps data > 50 then
                 let recoveryAmount =
                       Math_min (Math_floor (js_mul originalCount (Num 0.1)))
                                (js_sub originalCount currentCount);
                     (sf1, g1) =
                       (if js_gt recoveryAmount (Num 0) then
                          let newCount = js_add currentCount recoveryAmount
                          in setStarCount newCount sf g
                        else (sf, g));
                     sf2 =
                       (if \<not> enableGlow (config (renderer sf1)) then
                          sf1\<lparr>renderer := setTrailsEnabled True (setGlowEnabled True (renderer sf1)),
                              renderingOptimizations := (renderingOptimizations sf1)\<lparr>skipFrames := 0\<rparr>\<rparr>
                        else sf1)
                 in (sf2, g1)
               else (sf, g))
        in (sf3\<lparr>performanceOptimizations := (performanceOptimizations sf3)\<lparr>lastRecovery := now\<rparr>\<rparr>, g3))"

text \<open>
  The callbacks that \<open>setupPerformanceCallbacks\<close> installs in the monitor: each one calls
  its handler when automatic optimization is on.
\<close>

definition onPerformanceEvent :: "PerfEvent \<Rightarrow> real \<Rightarrow> StarField \<Rightarrow> rng \<Rightarrow> StarField \<times> rng" where
  "onPerformanceEvent ev now sf g =
     (case ev of
        LowPerformance data \<Rightarrow>
          if autoOptimize (performanceOptimizations sf) then handleLowPerformance data now sf g else (sf, g)
      | GoodPerformance data \<Rightarrow>
          if autoOptimize (performanceOptimizations sf) then handleGoodPerformance data now sf g else (sf, g))"

definition setAutoOptimization :: "bool \<Rightarrow> StarField \<Rightarrow> StarField" where
  "setAutoOptimization enabled sf =
     sf\<lparr>performanceOptimizations := (performanceOptimizations sf)\<lparr>autoOptimize := enabled\<rparr>\<rparr>"

section \<open>Input handler\<close>



record InputHandler =
  sensitivity :: real
  smoothing :: real
  maxRotation :: real
  invertY :: bool
  touchSensitivity :: real
  currentRotationX :: real
  currentRotationY :: real
  targetRotationX :: real
  targetRotationY :: real
  isMouseDown :: bool
  lastMouseX :: real
  lastMouseY :: real
  mouseX :: real
  mouseY :: real
  isTouchActive :: bool
  lastTouchX :: real
  lastTouchY :: real
  touchX :: real
  touchY :: real
  touchStartTime :: real
  multiTouchActive :: bool
  isTouch :: bool
  isUpdating :: bool


















definition InputHandler_update :: "InputHandler \<Rightarrow> InputHandler" where
  "InputHandler_update h =
     (if \<not> isUpdating h then h
      else
        let deltaX = targetRotationX h - currentRotationX h;
            deltaY = targetRotationY h - currentRotationY h
        in h\<lparr>currentRotationX := currentRotationX h + deltaX * smoothing h,
             currentRotationY := currentRotationY h + deltaY * smoothing h\<rparr>)"

definition InputHandler_reset :: "InputHandler \<Rightarrow> InputHandler" where
  "InputHandler_reset h =
     h\<lparr>currentRotationX := 0, currentRotationY := 0, targetRotationX := 0, targetRotationY := 0\<rparr>"

definition setMaxRotation :: "real \<Rightarrow> InputHandler \<Rightarrow> InputHandler" where
  "setMaxRotation maxRotation0 h = h\<lparr>maxRotation := max 0 (min pi maxRotation0)\<rparr>"




section \<open>Configuration panel\<close>

text \<open>
  The panel holds its own copy of the configuration and a reference to the star field;
  a handler of the panel takes both and returns both.  The fields \<open>starCount\<close>, \<open>speed\<close>
  and \<open>colorScheme\<close> of the panel's configuration carry the prefix \<open>cp_\<close>.
\<close>

record ConfigPanel =
  cp_starCount :: jsnum
  cp_speed :: jsnum
  cp_colorScheme :: string
  mouseRotation :: bool
  trailEffect :: bool

definition new_ConfigPanel :: ConfigPanel where
  "new_ConfigPanel =
     \<lparr>cp_starCount = Num 1000, cp_speed = Num 1.0, cp_colorScheme = ''white'',
      mouseRotation = True, trailEffect = True\<rparr>"

definition validateStarCount :: "jsnum \<Rightarrow> ConfigPanel \<Rightarrow> jsnum" where
  "validateStarCount count cp =
     (let minimum = Num 100; maximum = Num 5000 in
      if isNaN count then cp_starCount cp
      else Math_max minimum (Math_min maximum (Math_floor count)))"

text \<open>
  \<open>parseFloat(speed.toFixed(1))\<close>: the number rounded to one decimal, a tie away from
  zero; from \<open>10^21\<close> on \<open>toFixed\<close> prints the number itself.
\<close>

definition toFixed1 :: "jsnum \<Rightarrow> jsnum" where
  "toFixed1 a =
     (case a of
        NaN \<Rightarrow> NaN
      | Num x \<Rightarrow>
          if \<bar>x\<bar> \<ge> 10 ^ 21 then Num x
          else if x < 0 then Num (- (of_int \<lfloor>(- x) * 10 + 1 / 2\<rfloor> / 10))
          else Num (of_int \<lfloor>x * 10 + 1 / 2\<rfloor> / 10))"

definition validateSpeed :: "jsnum \<Rightarrow> ConfigPanel \<Rightarrow> jsnum" where
  "validateSpeed speed0 cp =
     (let minimum = Num 0.1; maximum = Num 5.0 in
      if isNaN speed0 then cp_speed cp
      else Math_max minimum (Math_min maximum (toFixed1 speed0)))"

definition validateColorScheme :: "string \<Rightarrow> bool" where
  "validateColorScheme scheme =
     (scheme \<in> set [''white'', ''blue-white'', ''warm'', ''cool'', ''rainbow'', ''nebula''])"

definition handleStarCountChange ::
  "jsnum \<Rightarrow> ConfigPanel \<times> StarField \<Rightarrow> rng \<Rightarrow> (ConfigPanel \<times> StarField) \<times> rng" where
  "handleStarCountChange count ps g =
     (let cp = fst ps; sf = snd ps;
          validCount = validateStarCount count cp
      in if \<not> js_strict_eq validCount (cp_starCount cp) then
           let (sf1, g1) = setStarCount validCount sf g
           in ((cp\<lparr>cp_starCount := validCount\<rparr>, sf1), g1)
         else (ps, g))"

definition handleSpeedChange :: "jsnum \<Rightarrow> ConfigPanel \<times> StarField \<Rightarrow> ConfigPanel \<times> StarField" where
  "handleSpeedChange speed0 ps =
     (let cp = fst ps; sf = snd ps;
          validSpeed = validateSpeed speed0 cp
      in if \<not> js_strict_eq validSpeed (cp_speed cp) then
           (cp\<lparr>cp_speed := validSpeed\<rparr>, setSpeed validSpeed sf)
         else ps)"

definition handleColorSchemeChange ::
  "string \<Rightarrow> real \<Rightarrow> ConfigPanel \<times> StarField \<Rightarrow> ConfigPanel \<times> StarField" where
  "handleColorSchemeChange scheme now ps =
     (let cp = fst ps; sf = snd ps in
      if validateColorScheme scheme then
        (cp\<lparr>cp_colorScheme := scheme\<rparr>, sf\<lparr>renderer := setColorScheme scheme True now (renderer sf)\<rparr>)
      else ps)"

definition handleTrailEffectChange :: "bool \<Rightarrow> ConfigPanel \<times> StarField \<Rightarrow> ConfigPanel \<times> StarField" where
  "handleTrailEffectChange enabled ps =
     (let cp = fst ps; sf = snd ps
      in (cp\<lparr>trailEffect := enabled\<rparr>, sf\<lparr>renderer := setTrailsEnabled enabled (renderer sf)\<rparr>))"

section \<open>Theorems\<close>

subsection \<open>Camera projection\<close>

lemma applyRotation_zero:
  "rotationX c = 0 \<Longrightarrow> rotationY c = 0 \<Longrightarrow> applyRotation c x y z = \<lparr>vx = x, vy = y, vz = z\<rparr>"
  by (simp add: applyRotation_def)

text \<open>
  Claim C1.  \<open>project3DTo2D\<close> returns null for every point with \<open>z \<le> 0\<close>, and for every
  point whose depth the camera's current rotation carries to a value \<open>\<le> 0\<close>; for every
  other point it returns the perspective projection of the rotated point, with the
  rotated depth passed through.  With \<open>rotationX = rotationY = 0\<close> and \<open>z > 0\<close> it returns
  the point
  \<open>(x * focalLength / z + canvasWidth / 2, y * focalLength / z + canvasHeight / 2)\<close>
  with the depth \<open>z\<close> passed through.
\<close>

theorem C1_project_null_safety_and_exactness:
  "(z \<le> 0 \<longrightarrow> project3DTo2D c x y z = None)
   \<and> (vz (applyRotation c x y z) \<le> 0 \<longrightarrow> project3DTo2D c x y z = None)
   \<and> (z > 0 \<and> vz (applyRotation c x y z) > 0 \<longrightarrow>
        project3DTo2D c x y z =
          Some \<lparr>vx = vx (applyRotation c x y z) * focalLength c / vz (applyRotation c x y z) + canvasWidth c / 2,
                vy = vy (applyRotation c x y z) * focalLength c / vz (applyRotation c x y z) + canvasHeight c / 2,
                vz = vz (applyRotation c x y z)\<rparr>)
   \<and> (rotationX c = 0 \<and> rotationY c = 0 \<and> z > 0 \<longrightarrow>
        project3DTo2D c x y z =
          Some \<lparr>vx = x * focalLength c / z + canvasWidth c / 2,
                vy = y * focalLength c / z + canvasHeight c / 2,
                vz = z\<rparr>)"
  by (simp add: project3DTo2D_def applyRotation_zero Let_def)

theorem C1_project_witness:
  "project3DTo2D \<lparr>fov = 75, aspect = 4 / 3, near = 1 / 10, far = 1000, rotationX = 0, rotationY = 0,
       canvasWidth = 800, canvasHeight = 600, focalLength = 300\<rparr> 100 50 (- 3) = None
   \<and> vz (applyRotation \<lparr>fov = 75, aspect = 4 / 3, near = 1 / 10, far = 1000, rotationX = 0, rotationY = pi,
       canvasWidth = 800, canvasHeight = 600, focalLength = 300\<rparr> 100 50 10) = - 10
   \<and> project3DTo2D \<lparr>fov = 75, aspect = 4 / 3, near = 1 / 10, far = 1000, rotationX = 0, rotationY = pi,
       canvasWidth = 800, canvasHeight = 600, focalLength = 300\<rparr> 100 50 10 = None
   \<and> project3DTo2D \<lparr>fov = 75, aspect = 4 / 3, near = 1 / 10, far = 1000, rotationX = 0, rotationY = 0,
       canvasWidth = 800, canvasHeight = 600, focalLength = 300\<rparr> 100 50 10
        = Some \<lparr>vx = 3400, vy = 1800, vz = 10\<rparr>"
proof -
  let ?c0 = "\<lparr>fov = 75, aspect = 4 / 3, near = 1 / 10, far = 1000, rotationX = 0, rotationY = 0,
       canvasWidth = 800, canvasHeight = 600, focalLength = 300\<rparr>"
  let ?c1 = "\<lparr>fov = 75, aspect = 4 / 3, near = 1 / 10, far = 1000, rotationX = 0, rotationY = pi,
       canvasWidth = 800, canvasHeight = 600, focalLength = 300\<rparr>"
  have rot: "vz (applyRotation ?c1 100 50 10) = - 10"
    by (simp add: applyRotation_def)
  have a: "project3DTo2D ?c0 100 50 (- 3) = None"
    using C1_project_null_safety_and_exactness [of "- 3" ?c0 100 50] by simp
  have b: "project3DTo2D ?c1 100 50 10 = None"
    using C1_project_null_safety_and_exactness [of 10 ?c1 100 50] rot by simp
  have c: "project3DTo2D ?c0 100 50 10 = Some \<lparr>vx = 3400, vy = 1800, vz = 10\<rparr>"
    using C1_project_null_safety_and_exactness [of 10 ?c0 100 50] by simp
  show ?thesis using a b c rot by blast
qed

subsection \<open>Star update and reset\<close>

lemma Star_update_reset:
  "star_z s - speed0 * star_speed s * deltaTime * 60 \<le> minDistance s \<Longrightarrow>
   Star_update speed0 deltaTime s g =
     Star_reset (s\<lparr>prevX := star_x s, prevY := star_y s,
                   star_z := star_z s - speed0 * star_speed s * deltaTime * 60\<rparr>) g"
  by (simp add: Star_update_def Let_def)

lemma Star_reset_fields:
  "star_z (fst (Star_reset s g)) = maxDistance s"
  "prevX (fst (Star_reset s g)) = star_x (fst (Star_reset s g))"
  "prevY (fst (Star_reset s g)) = star_y (fst (Star_reset s g))"
  "maxDistance (fst (Star_reset s g)) = maxDistance s"
  "minDistance (fst (Star_reset s g)) = minDistance s"
  by (simp_all add: Star_reset_def Math_random_def Let_def split: prod.splits)

lemma Star_update_bounds:
  assumes "Star_inv s" and "isVisible s" and "0 \<le> speed0 * deltaTime"
  shows "minDistance (fst (Star_update speed0 deltaTime s g)) < star_z (fst (Star_update speed0 deltaTime s g))
       \<and> star_z (fst (Star_update speed0 deltaTime s g)) \<le> maxDistance (fst (Star_update speed0 deltaTime s g))"
proof (cases "star_z s - speed0 * star_speed s * deltaTime * 60 \<le> minDistance s")
  case True
  then show ?thesis
    using assms(1) by (simp add: Star_update_reset Star_reset_fields Star_inv_def)
next
  case False
  have "0 \<le> star_speed s"
    using assms(1) by (simp add: Star_inv_def)
  with assms(3) have "0 \<le> (speed0 * deltaTime) * star_speed s"
    by (rule mult_nonneg_nonneg)
  moreover have "speed0 * star_speed s * deltaTime * 60 = ((speed0 * deltaTime) * star_speed s) * 60"
    by simp
  ultimately have d: "0 \<le> speed0 * star_speed s * deltaTime * 60"
    by (simp only: zero_le_mult_iff) simp
  have upd: "fst (Star_update speed0 deltaTime s g) =
      s\<lparr>prevX := star_x s, prevY := star_y s,
        star_z := star_z s - speed0 * star_speed s * deltaTime * 60\<rparr>"
    using False by (simp add: Star_update_def Let_def)
  have "star_z s \<le> maxDistance s"
    using assms(2) by (simp add: isVisible_def)
  with d have "star_z s - speed0 * star_speed s * deltaTime * 60 \<le> maxDistance s"
    by linarith
  with False show ?thesis
    by (simp add: upd)
qed

text \<open>
  Claim C2, as stated: for every live particle and every \<open>speedScale\<close> and \<open>deltaTime\<close>
  the state after \<open>update\<close> satisfies \<open>minDistance < z \<le> maxDistance\<close>.  It fails when the
  product of the two arguments is negative: \<open>update(-1, 1)\<close> on a star at \<open>z = 1000\<close> with
  speed multiplier \<open>0.5\<close> adds 30 to \<open>z\<close>, the star is not reset and ends at
  \<open>z = 1030 > maxDistance\<close>.
\<close>

theorem C2_negative_speed_counterexample:
  "Star_inv \<lparr>star_x = 0, star_y = 0, star_z = 1000, prevX = 0, prevY = 0,
             star_speed = 1 / 2, maxDistance = 1000, minDistance = 1\<rparr>
   \<and> isVisible \<lparr>star_x = 0, star_y = 0, star_z = 1000, prevX = 0, prevY = 0,
               star_speed = 1 / 2, maxDistance = 1000, minDistance = 1\<rparr>
   \<and> star_z (fst (Star_update (- 1) 1
        \<lparr>star_x = 0, star_y = 0, star_z = 1000, prevX = 0, prevY = 0,
         star_speed = 1 / 2, maxDistance = 1000, minDistance = 1\<rparr> (\<lambda>n. 1 / 2))) = 1030
   \<and> \<not> star_z (fst (Star_update (- 1) 1
        \<lparr>star_x = 0, star_y = 0, star_z = 1000, prevX = 0, prevY = 0,
         star_speed = 1 / 2, maxDistance = 1000, minDistance = 1\<rparr> (\<lambda>n. 1 / 2)))
      \<le> maxDistance (fst (Star_update (- 1) 1
        \<lparr>star_x = 0, star_y = 0, star_z = 1000, prevX = 0, prevY = 0,
         star_speed = 1 / 2, maxDistance = 1000, minDistance = 1\<rparr> (\<lambda>n. 1 / 2)))"
  by (simp add: Star_inv_def isVisible_def Star_update_def Let_def)

text \<open>
  Claim C2, amended.  After one \<open>update\<close> step, if the decremented \<open>z\<close> is
  \<open>\<le> minDistance\<close> then the particle's \<open>z\<close> equals \<open>maxDistance\<close> and its previous
  position equals its new position, for every \<open>speedScale\<close> and \<open>deltaTime\<close>.  For a live
  particle as the constructor and \<open>reset\<close> make it (\<open>minDistance = 1\<close>,
  \<open>maxDistance = 1000\<close>, speed multiplier in \<open>[0.5, 1]\<close>) and every \<open>speedScale\<close> and
  \<open>deltaTime\<close> whose product is not negative, the state after the step satisfies
  \<open>minDistance < z \<le> maxDistance\<close>.
\<close>

theorem C2_reset_invariant:
  "(star_z s - speed0 * star_speed s * deltaTime * 60 \<le> minDistance s \<longrightarrow>
      star_z (fst (Star_update speed0 deltaTime s g)) = maxDistance s
    \<and> prevX (fst (Star_update speed0 deltaTime s g)) = star_x (fst (Star_update speed0 deltaTime s g))
    \<and> prevY (fst (Star_update speed0 deltaTime s g)) = star_y (fst (Star_update speed0 deltaTime s g)))
   \<and> (Star_inv s \<and> isVisible s \<and> 0 \<le> speed0 * deltaTime \<longrightarrow>
        minDistance (fst (Star_update speed0 deltaTime s g)) < star_z (fst (Star_update speed0 deltaTime s g))
      \<and> star_z (fst (Star_update speed0 deltaTime s g)) \<le> maxDistance (fst (Star_update speed0 deltaTime s g)))"
  using Star_update_bounds [of s speed0 deltaTime g]
  by (simp add: Star_update_reset Star_reset_fields)

theorem C2_reset_invariant_witness:
  "star_z (fst (Star_update 1 (1 / 60)
        \<lparr>star_x = 3, star_y = 4, star_z = 6 / 5, prevX = 0, prevY = 0,
         star_speed = 1 / 2, maxDistance = 1000, minDistance = 1\<rparr> (\<lambda>n. 1 / 2))) = 1000
   \<and> prevX (fst (Star_update 1 (1 / 60)
        \<lparr>star_x = 3, star_y = 4, star_z = 6 / 5, prevX = 0, prevY = 0,
         star_speed = 1 / 2, maxDistance = 1000, minDistance = 1\<rparr> (\<lambda>n. 1 / 2))) = 0
   \<and> star_x (fst (Star_update 1 (1 / 60)
        \<lparr>star_x = 3, star_y = 4, star_z = 6 / 5, prevX = 0, prevY = 0,
         star_speed = 1 / 2, maxDistance = 1000, minDistance = 1\<rparr> (\<lambda>n. 1 / 2))) = 0
   \<and> star_z (fst (Star_update 1 (1 / 60)
        \<lparr>star_x = 3, star_y = 4, star_z = 500, prevX = 0, prevY = 0,
         star_speed = 1 / 2, maxDistance = 1000, minDistance = 1\<rparr> (\<lambda>n. 1 / 2))) = 999 / 2
   \<and> minDistance (fst (Star_update 1 (1 / 60)
        \<lparr>star_x = 3, star_y = 4, star_z = 500, prevX = 0, prevY = 0,
         star_speed = 1 / 2, maxDistance = 1000, minDistance = 1\<rparr> (\<lambda>n. 1 / 2)))
      < star_z (fst (Star_update 1 (1 / 60)
        \<lparr>star_x = 3, star_y = 4, star_z = 500, prevX = 0, prevY = 0,
         star_speed = 1 / 2, maxDistance = 1000, minDistance = 1\<rparr> (\<lambda>n. 1 / 2)))"
proof -
  let ?near = "\<lparr>star_x = 3, star_y = 4, star_z = 6 / 5, prevX = 0, prevY = 0,
         star_speed = 1 / 2, maxDistance = 1000, minDistance = 1\<rparr>"
  let ?mid = "\<lparr>star_x = 3, star_y = 4, star_z = 500, prevX = 0, prevY = 0,
         star_speed = 1 / 2, maxDistance = 1000, minDistance = 1\<rparr>"
  let ?g = "\<lambda>n::nat. 1 / 2 :: real"
  have x0: "star_x (fst (Star_update 1 (1 / 60) ?near ?g)) = 0"
    by (simp add: Star_update_def Star_reset_def Math_random_def Let_def)
  have z1: "star_z (fst (Star_update 1 (1 / 60) ?mid ?g)) = 999 / 2"
    by (simp add: Star_update_def Let_def)
  have pre: "Star_inv ?mid \<and> isVisible ?mid \<and> (0::real) \<le> 1 * (1 / 60)"
    by (simp add: Star_inv_def isVisible_def)
  have reset: "star_z ?near - 1 * star_speed ?near * (1 / 60) * 60 \<le> minDistance ?near"
    by simp
  from C2_reset_invariant [of ?near 1 "1 / 60" ?g] reset
  have a: "star_z (fst (Star_update 1 (1 / 60) ?near ?g)) = maxDistance ?near
         \<and> prevX (fst (Star_update 1 (1 / 60) ?near ?g)) = star_x (fst (Star_update 1 (1 / 60) ?near ?g))"
    by blast
  from C2_reset_invariant [of ?mid 1 "1 / 60" ?g] pre
  have b: "minDistance (fst (Star_update 1 (1 / 60) ?mid ?g)) < star_z (fst (Star_update 1 (1 / 60) ?mid ?g))"
    by blast
  from a b x0 z1 show ?thesis
    by simp
qed

subsection \<open>FPS history\<close>

lemma updateMemoryInfo_fields:
  "fpsHistory (updateMemoryInfo hm m) = fpsHistory m"
  "maxFpsHistory (updateMemoryInfo hm m) = maxFpsHistory m"
  by (simp_all add: updateMemoryInfo_def split: option.splits)

lemma PerformanceMonitor_update_history:
  "fpsHistory (fst (PerformanceMonitor_update t hm m)) =
     (if t - lastFpsUpdate m \<ge> 1000 then
        (if real (length (fpsHistory m) + 1) > maxFpsHistory m
         then tl (fpsHistory m @ [frameCount m + 1])
         else fpsHistory m @ [frameCount m + 1])
      else fpsHistory m)"
  by (simp add: PerformanceMonitor_update_def Let_def updateMemoryInfo_fields)

lemma PerformanceMonitor_update_max:
  "maxFpsHistory (fst (PerformanceMonitor_update t hm m)) = maxFpsHistory m"
  by (simp add: PerformanceMonitor_update_def Let_def updateMemoryInfo_fields)

lemma pm_inv_update: "pm_inv m \<Longrightarrow> pm_inv (fst (PerformanceMonitor_update t hm m))"
  by (auto simp add: pm_inv_def PerformanceMonitor_update_history PerformanceMonitor_update_max)

lemma pm_inv_run: "pm_inv m \<Longrightarrow> pm_inv (PerformanceMonitor_run fs m)"
  by (induction fs arbitrary: m) (auto simp add: pm_inv_update)

lemma pm_inv_new: "pm_inv new_PerformanceMonitor"
  by (simp add: pm_inv_def new_PerformanceMonitor_def)

text \<open>
  Claim C9.  After every sequence of \<open>update\<close> calls on a new performance monitor the FPS
  history has at most 60 entries.  An \<open>update\<close> that closes a second (1000 ms or more
  since the last snapshot) on a full history of 60 removes the oldest entry and appends
  the new reading \<open>frameCount + 1\<close> at the end, the order of the others unchanged; on a
  shorter history it only appends; an \<open>update\<close> inside the second leaves the history as it
  is.
\<close>

theorem C9_fps_history_bound:
  "length (fpsHistory (PerformanceMonitor_run fs new_PerformanceMonitor)) \<le> 60
   \<and> (maxFpsHistory m = 60 \<and> length (fpsHistory m) = 60 \<and> t - lastFpsUpdate m \<ge> 1000 \<longrightarrow>
        fpsHistory (fst (PerformanceMonitor_update t hm m)) = tl (fpsHistory m) @ [frameCount m + 1])
   \<and> (maxFpsHistory m = 60 \<and> length (fpsHistory m) < 60 \<and> t - lastFpsUpdate m \<ge> 1000 \<longrightarrow>
        fpsHistory (fst (PerformanceMonitor_update t hm m)) = fpsHistory m @ [frameCount m + 1])
   \<and> (t - lastFpsUpdate m < 1000 \<longrightarrow>
        fpsHistory (fst (PerformanceMonitor_update t hm m)) = fpsHistory m)"
proof -
  have "pm_inv (PerformanceMonitor_run fs new_PerformanceMonitor)"
    by (rule pm_inv_run [OF pm_inv_new])
  then have a: "length (fpsHistory (PerformanceMonitor_run fs new_PerformanceMonitor)) \<le> 60"
    by (simp add: pm_inv_def)
  have b: "length (fpsHistory m) = 60 \<Longrightarrow> tl (fpsHistory m @ [frameCount m + 1]) = tl (fpsHistory m) @ [frameCount m + 1]"
    by (cases "fpsHistory m") simp_all
  show ?thesis
    using a b by (simp add: PerformanceMonitor_update_history)
qed

theorem C9_fps_history_witness:
  "length (fpsHistory (PerformanceMonitor_run [(1000, None), (1016, None), (2005, None)] new_PerformanceMonitor)) \<le> 60
   \<and> fpsHistory (fst (PerformanceMonitor_update 6000 None
        (new_PerformanceMonitor\<lparr>frameCount := 14, lastFpsUpdate := 5000, fpsHistory := 10 # replicate 59 20\<rparr>)))
      = replicate 59 20 @ [15]
   \<and> fpsHistory (fst (PerformanceMonitor_update 6000 None
        (new_PerformanceMonitor\<lparr>frameCount := 14, lastFpsUpdate := 5000, fpsHistory := [10, 20]\<rparr>)))
      = [10, 20, 15]
   \<and> fpsHistory (fst (PerformanceMonitor_update 5016 None
        (new_PerformanceMonitor\<lparr>frameCount := 14, lastFpsUpdate := 5000, fpsHistory := [10, 20]\<rparr>)))
      = [10, 20]"
proof -
  let ?full = "new_PerformanceMonitor\<lparr>frameCount := 14, lastFpsUpdate := 5000, fpsHistory := 10 # replicate 59 20\<rparr>"
  let ?part = "new_PerformanceMonitor\<lparr>frameCount := 14, lastFpsUpdate := 5000, fpsHistory := [10, 20]\<rparr>"
  have a: "length (fpsHistory (PerformanceMonitor_run [(1000, None), (1016, None), (2005, None)] new_PerformanceMonitor)) \<le> 60"
    using C9_fps_history_bound [of "[(1000, None), (1016, None), (2005, None)]"] by blast
  have b: "fpsHistory (fst (PerformanceMonitor_update 6000 None ?full)) = replicate 59 20 @ [15]"
    using C9_fps_history_bound [of "[]" ?full 6000 None] by (simp add: new_PerformanceMonitor_def)
  have c: "fpsHistory (fst (PerformanceMonitor_update 6000 None ?part)) = [10, 20, 15]"
    using C9_fps_history_bound [of "[]" ?part 6000 None] by (simp add: new_PerformanceMonitor_def)
  have d: "fpsHistory (fst (PerformanceMonitor_update 5016 None ?part)) = [10, 20]"
    using C9_fps_history_bound [of "[]" ?part 5016 None] by (simp add: new_PerformanceMonitor_def)
  from a b c d show ?thesis by blast
qed

subsection \<open>Star count\<close>

lemma push_random_stars_length:
  "a \<le> b \<Longrightarrow>
   length (fst (push_random_stars (Num (of_int a)) (Num (of_int b)) ss g)) = length ss + nat (b - a)"
proof (induction "nat (b - a)" arbitrary: a ss g)
  case 0
  then have "a = b" by simp
  then show ?case
    by (subst push_random_stars.simps) (simp add: js_lt_def js_cmp_def)
next
  case (Suc k)
  then have lt: "a < b" and k: "k = nat (b - (a + 1))" and le: "a + 1 \<le> b"
    by linarith+
  obtain star g1 where c: "createRandomStar g = (star, g1)"
    by (cases "createRandomStar g")
  have step: "push_random_stars (Num (of_int a)) (Num (of_int b)) ss g =
      push_random_stars (Num (of_int (a + 1))) (Num (of_int b)) (ss @ [star]) g1"
    using lt c by (subst push_random_stars.simps) (simp add: js_lt_def js_cmp_def js_add_def js_lift2_def)
  have "nat (b - a) = Suc (nat (b - (a + 1)))"
    using lt by linarith
  then show ?case
    using Suc.hyps(1) [OF k le, of "ss @ [star]" g1] by (simp add: step)
qed

lemma push_random_stars_prefix:
  "take (length ss) (fst (push_random_stars i n ss g)) = ss"
proof (induction i n ss g rule: push_random_stars.induct)
  case (1 i n ss g)
  show ?case
  proof (cases "js_lt i n")
    case True
    obtain star g1 where c: "createRandomStar g = (star, g1)"
      by (cases "createRandomStar g")
    have "take (length (ss @ [star])) (fst (push_random_stars (js_add i (Num 1)) n (ss @ [star]) g1)) = ss @ [star]"
      using "1.IH" [OF True c [symmetric] refl] .
    then have "take (length ss) (take (length (ss @ [star])) (fst (push_random_stars (js_add i (Num 1)) n (ss @ [star]) g1)))
        = take (length ss) (ss @ [star])"
      by simp
    then have "take (length ss) (fst (push_random_stars (js_add i (Num 1)) n (ss @ [star]) g1)) = ss"
      by (simp add: min_def)
    then show ?thesis
      using True c by (subst push_random_stars.simps) simp
  next
    case False
    then show ?thesis
      by (subst push_random_stars.simps) simp
  qed
qed


lemma new_StarField_count:
  assumes "0 \<le> n"
  shows "starCount (fst (new_StarField w h (Num (of_int n)) g)) = Num (of_int n)"
    and "originalStarCount (fst (new_StarField w h (Num (of_int n)) g)) = Num (of_int n)"
    and "length (stars (fst (new_StarField w h (Num (of_int n)) g))) = nat n"
proof -
  obtain ss g1 where p: "push_random_stars (Num 0) (Num (of_int n)) [] g = (ss, g1)"
    by (cases "push_random_stars (Num 0) (Num (of_int n)) [] g")
  have "length (fst (push_random_stars (Num (of_int 0)) (Num (of_int n)) [] g)) = length ([] :: Star list) + nat (n - 0)"
    using assms by (rule push_random_stars_length)
  then have len: "length ss = nat n"
    by (simp add: p)
  show "starCount (fst (new_StarField w h (Num (of_int n)) g)) = Num (of_int n)"
    by (simp add: new_StarField_def initialize_def setupPerformanceCallbacks_def p)
  show "originalStarCount (fst (new_StarField w h (Num (of_int n)) g)) = Num (of_int n)"
    by (simp add: new_StarField_def initialize_def setupPerformanceCallbacks_def p)
  show "length (stars (fst (new_StarField w h (Num (of_int n)) g))) = nat n"
    by (simp add: new_StarField_def initialize_def setupPerformanceCallbacks_def p len)
qed

text \<open>
  Claim C10.  For every non-negative integer \<open>n\<close>, a star field constructed with
  \<open>starCount = n\<close> holds exactly \<open>n\<close> stars and \<open>getStarCount()\<close> returns \<open>n\<close>: the
  constructor does not clamp to \<open>[1, 5000]\<close>, so a field constructed with 0 or with more
  than 5000 stars holds that count.
\<close>

theorem C10_constructor_unclamped:
  "0 \<le> n \<longrightarrow>
     length (stars (fst (new_StarField w h (Num (of_int n)) g))) = nat n
   \<and> getStarCount (fst (new_StarField w h (Num (of_int n)) g)) = Num (of_int n)"
  by (simp add: new_StarField_count getStarCount_def)

theorem C10_constructor_witness:
  "length (stars (fst (new_StarField 800 600 (Num 0) (\<lambda>n. 1 / 2)))) = 0
   \<and> getStarCount (fst (new_StarField 800 600 (Num 0) (\<lambda>n. 1 / 2))) = Num 0
   \<and> length (stars (fst (new_StarField 800 600 (Num 6000) (\<lambda>n. 1 / 2)))) = 6000
   \<and> getStarCount (fst (new_StarField 800 600 (Num 6000) (\<lambda>n. 1 / 2))) = Num 6000"
  using C10_constructor_unclamped [of 0 800 600 "\<lambda>n. 1 / 2"] C10_constructor_unclamped [of 6000 800 600 "\<lambda>n. 1 / 2"]
  by simp

lemma clamp_count_int:
  "Math_max (Num 1) (Math_min (Num 5000) (Math_floor (Num x))) = Num (of_int (max 1 (min 5000 \<lfloor>x\<rfloor>)))"
  by (simp add: Math_max_def Math_min_def Math_floor_def js_lift2_def of_int_max of_int_min)

lemma splice_from_take:
  "0 \<le> k \<Longrightarrow> k \<le> int (length xs) \<Longrightarrow> splice_from (Num (of_int k)) xs = take (nat k) xs"
  by (simp add: splice_from_def js_trunc_def Let_def min_def)

lemma setStarCount_count:
  "starCount (fst (setStarCount (Num x) sf g)) = Num (of_int (max 1 (min 5000 \<lfloor>x\<rfloor>)))"
proof (cases "js_strict_eq (Num (of_int (max 1 (min 5000 \<lfloor>x\<rfloor>)))) (starCount sf)")
  case True
  then have "starCount sf = Num (of_int (max 1 (min 5000 \<lfloor>x\<rfloor>)))"
    by (cases "starCount sf") (simp_all add: js_strict_eq_def js_cmp_def)
  with True show ?thesis
    by (simp add: setStarCount_def clamp_count_int Let_def)
next
  case False
  then show ?thesis
    by (simp add: setStarCount_def clamp_count_int Let_def split: prod.splits)
qed

lemma setStarCount_stars:
  assumes "starCount sf = Num (of_int c)" and "length (stars sf) = nat c" and "0 \<le> c"
  shows "length (stars (fst (setStarCount (Num x) sf g))) = nat (max 1 (min 5000 \<lfloor>x\<rfloor>))"
    and "c \<le> max 1 (min 5000 \<lfloor>x\<rfloor>) \<Longrightarrow> take (nat c) (stars (fst (setStarCount (Num x) sf g))) = stars sf"
    and "max 1 (min 5000 \<lfloor>x\<rfloor>) \<le> c \<Longrightarrow> stars (fst (setStarCount (Num x) sf g)) = take (nat (max 1 (min 5000 \<lfloor>x\<rfloor>))) (stars sf)"
proof -
  define k where "k = max 1 (min 5000 \<lfloor>x\<rfloor>)"
  have k1: "1 \<le> k" by (simp add: k_def)
  consider (eq) "k = c" | (gt) "c < k" | (lt) "k < c" by linarith
  then have "length (stars (fst (setStarCount (Num x) sf g))) = nat k
      \<and> (c \<le> k \<longrightarrow> take (nat c) (stars (fst (setStarCount (Num x) sf g))) = stars sf)
      \<and> (k \<le> c \<longrightarrow> stars (fst (setStarCount (Num x) sf g)) = take (nat k) (stars sf))"
  proof cases
    case eq
    then show ?thesis
      using assms by (simp add: setStarCount_def clamp_count_int Let_def k_def [symmetric] js_strict_eq_def js_cmp_def)
  next
    case gt
    obtain ss g1 where p: "push_random_stars (Num (of_int c)) (Num (of_int k)) (stars sf) g = (ss, g1)"
      by (cases "push_random_stars (Num (of_int c)) (Num (of_int k)) (stars sf) g")
    have "length (fst (push_random_stars (Num (of_int c)) (Num (of_int k)) (stars sf) g)) = length (stars sf) + nat (k - c)"
      using gt by (intro push_random_stars_length) simp
    then have len: "length ss = nat k"
      using gt assms by (simp add: p)
    have "take (length (stars sf)) (fst (push_random_stars (Num (of_int c)) (Num (of_int k)) (stars sf) g)) = stars sf"
      by (rule push_random_stars_prefix)
    then have pre: "take (nat c) ss = stars sf"
      using assms by (simp add: p)
    have "stars (fst (setStarCount (Num x) sf g)) = ss"
      using gt assms by (simp add: setStarCount_def clamp_count_int Let_def k_def [symmetric] js_strict_eq_def js_gt_def js_cmp_def p)
    then show ?thesis
      using gt len pre by simp
  next
    case lt
    have "splice_from (Num (of_int k)) (stars sf) = take (nat k) (stars sf)"
      using lt k1 assms by (intro splice_from_take) simp_all
    moreover have "stars (fst (setStarCount (Num x) sf g)) = splice_from (Num (of_int k)) (stars sf)"
      using lt assms by (simp add: setStarCount_def clamp_count_int Let_def k_def [symmetric] js_strict_eq_def js_gt_def js_cmp_def)
    ultimately show ?thesis
      using lt k1 assms by simp
  qed
  then show "length (stars (fst (setStarCount (Num x) sf g))) = nat (max 1 (min 5000 \<lfloor>x\<rfloor>))"
    and "c \<le> max 1 (min 5000 \<lfloor>x\<rfloor>) \<Longrightarrow> take (nat c) (stars (fst (setStarCount (Num x) sf g))) = stars sf"
    and "max 1 (min 5000 \<lfloor>x\<rfloor>) \<le> c \<Longrightarrow> stars (fst (setStarCount (Num x) sf g)) = take (nat (max 1 (min 5000 \<lfloor>x\<rfloor>))) (stars sf)"
    by (simp_all add: k_def)
qed

lemma setStarCount_NaN:
  "setStarCount NaN sf g = (sf\<lparr>starCount := NaN, stars := []\<rparr>, g)"
  by (simp add: setStarCount_def Math_max_def Math_min_def Math_floor_def js_lift2_def
        js_strict_eq_def js_gt_def js_cmp_def splice_from_def Let_def)

text \<open>
  Claim C3, as stated: for every integer input \<open>n\<close>, after \<open>setStarCount(n)\<close> the
  collection's length equals the stored count.  The call appends or cuts by comparing the
  new count with the stored one, whatever the collection holds.  After
  \<open>setStarCount(NaN)\<close> has stored \<open>NaN\<close> and emptied the collection, \<open>setStarCount(5)\<close>
  stores 5 and cuts the empty collection at index 5: it holds no star.  On a field
  constructed with the count \<open>-5\<close>, which holds no star, \<open>setStarCount(3)\<close> stores 3 and
  appends one star for each index from \<open>-5\<close> to 2: it holds 8 stars.
\<close>

theorem C3_length_counterexample:
  "starCount (fst (setStarCount (Num 5)
      (fst (setStarCount NaN (fst (new_StarField 800 600 (Num 1000) (\<lambda>n. 1 / 2))) (\<lambda>n. 1 / 2)))
      (\<lambda>n. 1 / 2))) = Num 5
   \<and> length (stars (fst (setStarCount (Num 5)
      (fst (setStarCount NaN (fst (new_StarField 800 600 (Num 1000) (\<lambda>n. 1 / 2))) (\<lambda>n. 1 / 2)))
      (\<lambda>n. 1 / 2)))) = 0
   \<and> starCount (fst (new_StarField 800 600 (Num (- 5)) (\<lambda>n. 1 / 2))) = Num (- 5)
   \<and> length (stars (fst (new_StarField 800 600 (Num (- 5)) (\<lambda>n. 1 / 2)))) = 0
   \<and> starCount (fst (setStarCount (Num 3) (fst (new_StarField 800 600 (Num (- 5)) (\<lambda>n. 1 / 2))) (\<lambda>n. 1 / 2))) = Num 3
   \<and> length (stars (fst (setStarCount (Num 3) (fst (new_StarField 800 600 (Num (- 5)) (\<lambda>n. 1 / 2))) (\<lambda>n. 1 / 2)))) = 8"
proof -
  let ?g = "\<lambda>n::nat. 1 / 2 :: real"
  let ?sfN = "fst (setStarCount NaN (fst (new_StarField 800 600 (Num 1000) ?g)) ?g)"
  let ?sfM = "fst (new_StarField 800 600 (Num (- 5)) ?g)"
  have k5: "Math_max (Num 1) (Math_min (Num 5000) (Math_floor (Num 5))) = Num 5"
    by (simp add: Math_max_def Math_min_def Math_floor_def js_lift2_def)
  have k3: "Math_max (Num 1) (Math_min (Num 5000) (Math_floor (Num 3))) = Num 3"
    by (simp add: Math_max_def Math_min_def Math_floor_def js_lift2_def)
  have n: "starCount ?sfN = NaN" "stars ?sfN = []"
    by (simp_all add: setStarCount_NaN)
  have "setStarCount (Num 5) sf ?g = (sf\<lparr>starCount := Num 5, stars := []\<rparr>, ?g)"
    if "starCount sf = NaN" and "stars sf = []" for sf
    using that by (simp add: setStarCount_def k5 js_strict_eq_def js_gt_def js_cmp_def splice_from_def Let_def)
  from this [OF n]
  have five: "setStarCount (Num 5) ?sfN ?g = (?sfN\<lparr>starCount := Num 5, stars := []\<rparr>, ?g)" .
  have p0: "push_random_stars (Num 0) (Num (- 5)) [] ?g = ([], ?g)"
    by (subst push_random_stars.simps) (simp add: js_lt_def js_cmp_def)
  have m: "starCount ?sfM = Num (- 5)" "stars ?sfM = []"
    by (simp_all add: new_StarField_def initialize_def setupPerformanceCallbacks_def p0)
  obtain ss g1 where p: "push_random_stars (Num (- 5)) (Num 3) [] ?g = (ss, g1)"
    by (cases "push_random_stars (Num (- 5)) (Num 3) [] ?g")
  have "length (fst (push_random_stars (Num (of_int (- 5))) (Num (of_int 3)) [] ?g))
      = length ([] :: Star list) + nat (3 - (- 5))"
    by (rule push_random_stars_length) simp
  then have len: "length ss = 8"
    by (simp add: p)
  have "setStarCount (Num 3) sf ?g = (sf\<lparr>starCount := Num 3, stars := ss\<rparr>, g1)"
    if "starCount sf = Num (- 5)" and "stars sf = []" for sf
    using that by (simp add: setStarCount_def k3 js_strict_eq_def js_gt_def js_cmp_def Let_def p)
  from this [OF m]
  have three: "setStarCount (Num 3) ?sfM ?g = (?sfM\<lparr>starCount := Num 3, stars := ss\<rparr>, g1)" .
  show ?thesis
    by (simp add: five three m len)
qed

text \<open>
  Claim C3, amended.  For every integer input \<open>n\<close>, after \<open>setStarCount(n)\<close> the stored
  star count is \<open>clamp(n, 1, 5000)\<close>.  On a star field whose collection has as many stars
  as its stored count says, the count being a non-negative integer (what the constructor
  establishes for a non-negative integer count, and what \<open>setStarCount\<close> then
  re-establishes), the collection's length after the call is that clamped count: when
  the count grows the old stars are kept and new ones are appended, when it shrinks the
  collection is cut at the end.
\<close>

theorem C3_setStarCount_clamp:
  "starCount (fst (setStarCount (Num (of_int n)) sf g)) = Num (of_int (max 1 (min 5000 n)))
   \<and> (starCount sf = Num (of_int c) \<and> length (stars sf) = nat c \<and> 0 \<le> c \<longrightarrow>
        length (stars (fst (setStarCount (Num (of_int n)) sf g))) = nat (max 1 (min 5000 n))
      \<and> (c \<le> max 1 (min 5000 n) \<longrightarrow>
            take (nat c) (stars (fst (setStarCount (Num (of_int n)) sf g))) = stars sf)
      \<and> (max 1 (min 5000 n) \<le> c \<longrightarrow>
            stars (fst (setStarCount (Num (of_int n)) sf g)) = take (nat (max 1 (min 5000 n))) (stars sf)))"
  using setStarCount_count [of "of_int n" sf g] setStarCount_stars [of sf c "of_int n" g]
  by simp

theorem C3_setStarCount_clamp_witness:
  "starCount (fst (setStarCount (Num (- 7)) (fst (new_StarField 800 600 (Num 3) (\<lambda>n. 1 / 2))) (\<lambda>n. 1 / 2))) = Num 1
   \<and> length (stars (fst (setStarCount (Num (- 7)) (fst (new_StarField 800 600 (Num 3) (\<lambda>n. 1 / 2))) (\<lambda>n. 1 / 2)))) = 1
   \<and> starCount (fst (setStarCount (Num 0) (fst (new_StarField 800 600 (Num 3) (\<lambda>n. 1 / 2))) (\<lambda>n. 1 / 2))) = Num 1
   \<and> starCount (fst (setStarCount (Num 10000) (fst (new_StarField 800 600 (Num 3) (\<lambda>n. 1 / 2))) (\<lambda>n. 1 / 2))) = Num 5000
   \<and> length (stars (fst (setStarCount (Num 10000) (fst (new_StarField 800 600 (Num 3) (\<lambda>n. 1 / 2))) (\<lambda>n. 1 / 2)))) = 5000
   \<and> take 3 (stars (fst (setStarCount (Num 10000) (fst (new_StarField 800 600 (Num 3) (\<lambda>n. 1 / 2))) (\<lambda>n. 1 / 2))))
       = stars (fst (new_StarField 800 600 (Num 3) (\<lambda>n. 1 / 2)))"
proof -
  let ?g = "\<lambda>n::nat. 1 / 2 :: real"
  let ?sf = "fst (new_StarField 800 600 (Num 3) ?g)"
  have pre: "starCount ?sf = Num (of_int 3) \<and> length (stars ?sf) = nat 3 \<and> (0::int) \<le> 3"
    using new_StarField_count [of 3 800 600 ?g] by simp
  from C3_setStarCount_clamp [of "- 7" ?sf ?g 3] pre
  have a: "starCount (fst (setStarCount (Num (- 7)) ?sf ?g)) = Num 1
         \<and> length (stars (fst (setStarCount (Num (- 7)) ?sf ?g))) = 1"
    by simp
  from C3_setStarCount_clamp [of 0 ?sf ?g 3]
  have b: "starCount (fst (setStarCount (Num 0) ?sf ?g)) = Num 1"
    by simp
  from C3_setStarCount_clamp [of 10000 ?sf ?g 3] pre
  have c: "starCount (fst (setStarCount (Num 10000) ?sf ?g)) = Num 5000
         \<and> length (stars (fst (setStarCount (Num 10000) ?sf ?g))) = 5000
         \<and> take 3 (stars (fst (setStarCount (Num 10000) ?sf ?g))) = stars ?sf"
    by simp
  from a b c show ?thesis by blast
qed

subsection \<open>Invalid configuration input\<close>

lemma clamp_speed_Num:
  "Math_max (Num (1 / 10)) (Math_min (Num 5) (Num r)) = Num (max (1 / 10) (min 5 r))"
  by (simp add: Math_max_def Math_min_def js_lift2_def)

lemma toFixed1_cases:
  "\<bar>x\<bar> \<ge> 10 ^ 21 \<Longrightarrow> toFixed1 (Num x) = Num x"
  "\<bar>x\<bar> < 10 ^ 21 \<Longrightarrow> x < 0 \<Longrightarrow> toFixed1 (Num x) = Num (- (of_int \<lfloor>(- x) * 10 + 1 / 2\<rfloor> / 10))"
  "\<bar>x\<bar> < 10 ^ 21 \<Longrightarrow> 0 \<le> x \<Longrightarrow> toFixed1 (Num x) = Num (of_int \<lfloor>x * 10 + 1 / 2\<rfloor> / 10)"
  by (simp_all add: toFixed1_def)

lemma toFixed1_low: "x < 1 / 10 \<Longrightarrow> \<exists>r. toFixed1 (Num x) = Num r \<and> r \<le> 1 / 10"
proof -
  assume x: "x < 1 / 10"
  consider (big) "\<bar>x\<bar> \<ge> 10 ^ 21" | (neg) "\<bar>x\<bar> < 10 ^ 21" "x < 0" | (pos) "\<bar>x\<bar> < 10 ^ 21" "0 \<le> x"
    by linarith
  then show ?thesis
  proof cases
    case big
    with x show ?thesis
      using toFixed1_cases(1) [OF big] by (intro exI [of _ x]) simp
  next
    case neg
    have "0 \<le> \<lfloor>(- x) * 10 + 1 / 2\<rfloor>"
      using neg(2) by (simp add: le_floor_iff)
    then have "(0::real) \<le> of_int \<lfloor>(- x) * 10 + 1 / 2\<rfloor>"
      by linarith
    then have "- (of_int \<lfloor>(- x) * 10 + 1 / 2\<rfloor> / 10) \<le> (1 / 10 :: real)"
      by linarith
    then show ?thesis
      using toFixed1_cases(2) [OF neg] by blast
  next
    case pos
    have "\<lfloor>x * 10 + 1 / 2\<rfloor> \<le> 1"
      using x by (simp add: floor_le_iff)
    then have "of_int \<lfloor>x * 10 + 1 / 2\<rfloor> \<le> (1::real)"
      by linarith
    then have "of_int \<lfloor>x * 10 + 1 / 2\<rfloor> / 10 \<le> (1 / 10 :: real)"
      by linarith
    then show ?thesis
      using toFixed1_cases(3) [OF pos] by blast
  qed
qed

lemma toFixed1_high: "5 < x \<Longrightarrow> \<exists>r. toFixed1 (Num x) = Num r \<and> 5 \<le> r"
proof -
  assume x: "5 < x"
  consider (big) "\<bar>x\<bar> \<ge> 10 ^ 21" | (pos) "\<bar>x\<bar> < 10 ^ 21" "0 \<le> x"
    using x by linarith
  then show ?thesis
  proof cases
    case big
    with x show ?thesis
      using toFixed1_cases(1) [OF big] by (intro exI [of _ x]) simp
  next
    case pos
    have "50 \<le> \<lfloor>x * 10 + 1 / 2\<rfloor>"
      using x by (simp add: le_floor_iff)
    then have "(50::real) \<le> of_int \<lfloor>x * 10 + 1 / 2\<rfloor>"
      by linarith
    then have "(5::real) \<le> of_int \<lfloor>x * 10 + 1 / 2\<rfloor> / 10"
      by linarith
    then show ?thesis
      using toFixed1_cases(3) [OF pos] by blast
  qed
qed

lemma toFixed1_mid:
  "1 / 10 \<le> x \<Longrightarrow> x \<le> 5 \<Longrightarrow> \<exists>r. toFixed1 (Num x) = Num r \<and> 1 / 10 \<le> r \<and> r \<le> 5"
proof -
  assume x: "1 / 10 \<le> x" "x \<le> 5"
  have pos: "\<bar>x\<bar> < 10 ^ 21" "0 \<le> x"
    using x by simp_all
  have "1 \<le> \<lfloor>x * 10 + 1 / 2\<rfloor>"
    using x by (simp add: le_floor_iff)
  then have "(1::real) \<le> of_int \<lfloor>x * 10 + 1 / 2\<rfloor>"
    by linarith
  then have a: "(1 / 10 ::real) \<le> of_int \<lfloor>x * 10 + 1 / 2\<rfloor> / 10"
    by linarith
  have "\<lfloor>x * 10 + 1 / 2\<rfloor> \<le> 50"
    using x by (simp add: floor_le_iff)
  then have "of_int \<lfloor>x * 10 + 1 / 2\<rfloor> \<le> (50::real)"
    by linarith
  then have b: "of_int \<lfloor>x * 10 + 1 / 2\<rfloor> / 10 \<le> (5::real)"
    by linarith
  show ?thesis
    using toFixed1_cases(3) [OF pos] a b by blast
qed

lemma validateSpeed_Num:
  "validateSpeed (Num x) cp = Math_max (Num (1 / 10)) (Math_min (Num 5) (toFixed1 (Num x)))"
  by (simp add: validateSpeed_def isNaN_def)

lemma validateSpeed_clamp:
  "x < 1 / 10 \<Longrightarrow> validateSpeed (Num x) cp = Num (1 / 10)"
  "5 < x \<Longrightarrow> validateSpeed (Num x) cp = Num 5"
  "1 / 10 \<le> x \<Longrightarrow> x \<le> 5 \<Longrightarrow> validateSpeed (Num x) cp = toFixed1 (Num x)"
proof -
  show "x < 1 / 10 \<Longrightarrow> validateSpeed (Num x) cp = Num (1 / 10)"
    using toFixed1_low [of x] by (auto simp add: validateSpeed_Num clamp_speed_Num)
  show "5 < x \<Longrightarrow> validateSpeed (Num x) cp = Num 5"
    using toFixed1_high [of x] by (auto simp add: validateSpeed_Num clamp_speed_Num)
  show "1 / 10 \<le> x \<Longrightarrow> x \<le> 5 \<Longrightarrow> validateSpeed (Num x) cp = toFixed1 (Num x)"
    using toFixed1_mid [of x] by (auto simp add: validateSpeed_Num clamp_speed_Num)
qed

text \<open>
  Claim C7, as stated: for every configuration setter a \<open>NaN\<close> input leaves the prior
  stored value unchanged.  \<open>StarField.setStarCount\<close> and \<open>StarField.setSpeed\<close> have no
  test for \<open>NaN\<close>: on a field of 1000 stars \<open>setStarCount(NaN)\<close> stores \<open>NaN\<close> as the count
  and empties the collection, and \<open>setSpeed(NaN)\<close> stores \<open>NaN\<close> as the speed.
\<close>

theorem C7_NaN_counterexample:
  "starCount (fst (new_StarField 800 600 (Num 1000) (\<lambda>n. 1 / 2))) = Num 1000
   \<and> length (stars (fst (new_StarField 800 600 (Num 1000) (\<lambda>n. 1 / 2)))) = 1000
   \<and> starCount (fst (setStarCount NaN (fst (new_StarField 800 600 (Num 1000) (\<lambda>n. 1 / 2))) (\<lambda>n. 1 / 2))) = NaN
   \<and> starCount (fst (setStarCount NaN (fst (new_StarField 800 600 (Num 1000) (\<lambda>n. 1 / 2))) (\<lambda>n. 1 / 2)))
       \<noteq> starCount (fst (new_StarField 800 600 (Num 1000) (\<lambda>n. 1 / 2)))
   \<and> stars (fst (setStarCount NaN (fst (new_StarField 800 600 (Num 1000) (\<lambda>n. 1 / 2))) (\<lambda>n. 1 / 2))) = []
   \<and> speed (fst (new_StarField 800 600 (Num 1000) (\<lambda>n. 1 / 2))) = Num 1
   \<and> speed (setSpeed NaN (fst (new_StarField 800 600 (Num 1000) (\<lambda>n. 1 / 2)))) = NaN"
proof -
  let ?g = "\<lambda>n::nat. 1 / 2 :: real"
  obtain ss g1 where p: "push_random_stars (Num 0) (Num 1000) [] ?g = (ss, g1)"
    by (cases "push_random_stars (Num 0) (Num 1000) [] ?g")
  have sp: "speed (fst (new_StarField 800 600 (Num 1000) ?g)) = Num 1"
    by (simp add: new_StarField_def initialize_def setupPerformanceCallbacks_def p)
  show ?thesis
    using new_StarField_count [of 1000 800 600 ?g] sp
    by (simp add: setStarCount_NaN setSpeed_def Math_max_def Math_min_def js_lift2_def)
qed

text \<open>
  Claim C7, amended.  Every configuration setter clamps a numeric input to its range and
  returns normally: \<open>StarField.setStarCount\<close> stores \<open>clamp(floor(x), 1, 5000)\<close>,
  \<open>StarField.setSpeed\<close> stores \<open>clamp(x, 0.1, 5)\<close>, the panel's \<open>validateStarCount\<close> gives
  \<open>clamp(floor(x), 100, 5000)\<close> and its \<open>validateSpeed\<close> gives \<open>0.1\<close> below the range, \<open>5\<close>
  above it and the input rounded to one decimal inside it.  A \<open>NaN\<close> input to the
  panel's validators gives the value the panel has stored, and the panel's handlers then
  leave the panel and the star field unchanged.
\<close>

theorem C7_invalid_input:
  "starCount (fst (setStarCount (Num x) sf g)) = Num (of_int (max 1 (min 5000 \<lfloor>x\<rfloor>)))
   \<and> speed (setSpeed (Num x) sf) = Num (max (1 / 10) (min 5 x))
   \<and> validateStarCount (Num x) cp = Num (of_int (max 100 (min 5000 \<lfloor>x\<rfloor>)))
   \<and> (x < 1 / 10 \<longrightarrow> validateSpeed (Num x) cp = Num (1 / 10))
   \<and> (5 < x \<longrightarrow> validateSpeed (Num x) cp = Num 5)
   \<and> (1 / 10 \<le> x \<and> x \<le> 5 \<longrightarrow> validateSpeed (Num x) cp = toFixed1 (Num x))
   \<and> validateStarCount NaN cp = cp_starCount cp
   \<and> validateSpeed NaN cp = cp_speed cp
   \<and> (\<not> isNaN (cp_starCount cp) \<longrightarrow> handleStarCountChange NaN (cp, sf) g = ((cp, sf), g))
   \<and> (\<not> isNaN (cp_speed cp) \<longrightarrow> handleSpeedChange NaN (cp, sf) = (cp, sf))"
proof -
  have a: "speed (setSpeed (Num x) sf) = Num (max (1 / 10) (min 5 x))"
    by (simp add: setSpeed_def Math_max_def Math_min_def js_lift2_def)
  have b: "validateStarCount (Num x) cp = Num (of_int (max 100 (min 5000 \<lfloor>x\<rfloor>)))"
    by (simp add: validateStarCount_def isNaN_def Math_max_def Math_min_def Math_floor_def js_lift2_def of_int_max of_int_min)
  have c: "validateStarCount NaN cp = cp_starCount cp" "validateSpeed NaN cp = cp_speed cp"
    by (simp_all add: validateStarCount_def validateSpeed_def isNaN_def)
  have d: "\<not> isNaN (cp_starCount cp) \<Longrightarrow> handleStarCountChange NaN (cp, sf) g = ((cp, sf), g)"
    by (cases "cp_starCount cp") (simp_all add: handleStarCountChange_def c isNaN_def js_strict_eq_def js_cmp_def)
  have e: "\<not> isNaN (cp_speed cp) \<Longrightarrow> handleSpeedChange NaN (cp, sf) = (cp, sf)"
    by (cases "cp_speed cp") (simp_all add: handleSpeedChange_def c isNaN_def js_strict_eq_def js_cmp_def)
  show ?thesis
    using setStarCount_count [of x sf g] a b c d e validateSpeed_clamp [of x cp]
    by blast
qed

theorem C7_invalid_input_witness:
  "speed (setSpeed (Num 7) (fst (new_StarField 800 600 (Num 3) (\<lambda>n. 1 / 2)))) = Num 5
   \<and> validateStarCount (Num 7) new_ConfigPanel = Num 100
   \<and> validateSpeed (Num (- 2)) new_ConfigPanel = Num (1 / 10)
   \<and> validateSpeed (Num 7) new_ConfigPanel = Num 5
   \<and> validateSpeed (Num (1 / 4)) new_ConfigPanel = Num (3 / 10)
   \<and> handleStarCountChange NaN (new_ConfigPanel, fst (new_StarField 800 600 (Num 3) (\<lambda>n. 1 / 2))) (\<lambda>n. 1 / 2)
       = ((new_ConfigPanel, fst (new_StarField 800 600 (Num 3) (\<lambda>n. 1 / 2))), (\<lambda>n. 1 / 2))
   \<and> handleSpeedChange NaN (new_ConfigPanel, fst (new_StarField 800 600 (Num 3) (\<lambda>n. 1 / 2)))
       = (new_ConfigPanel, fst (new_StarField 800 600 (Num 3) (\<lambda>n. 1 / 2)))"
proof -
  let ?g = "\<lambda>n::nat. 1 / 2 :: real"
  let ?sf = "fst (new_StarField 800 600 (Num 3) ?g)"
  have pre: "\<not> isNaN (cp_starCount new_ConfigPanel)" "\<not> isNaN (cp_speed new_ConfigPanel)"
    by (simp_all add: new_ConfigPanel_def isNaN_def)
  have mid: "toFixed1 (Num (1 / 4)) = Num (3 / 10)"
    by (simp add: toFixed1_def)
  from C7_invalid_input [of 7 ?sf ?g new_ConfigPanel]
  have a: "speed (setSpeed (Num 7) ?sf) = Num 5"
    and b: "validateStarCount (Num 7) new_ConfigPanel = Num 100"
    and c: "validateSpeed (Num 7) new_ConfigPanel = Num 5"
    by simp_all
  from C7_invalid_input [of "- 2" ?sf ?g new_ConfigPanel]
  have d: "validateSpeed (Num (- 2)) new_ConfigPanel = Num (1 / 10)"
    by simp
  from C7_invalid_input [of "1 / 4" ?sf ?g new_ConfigPanel] mid
  have e: "validateSpeed (Num (1 / 4)) new_ConfigPanel = Num (3 / 10)"
    by simp
  from C7_invalid_input [of 0 ?sf ?g new_ConfigPanel] pre
  have f: "handleStarCountChange NaN (new_ConfigPanel, ?sf) ?g = ((new_ConfigPanel, ?sf), ?g)"
    and h: "handleSpeedChange NaN (new_ConfigPanel, ?sf) = (new_ConfigPanel, ?sf)"
    by blast+
  from a b c d e f h show ?thesis
    by blast
qed

subsection \<open>Adaptive quality\<close>

lemma setStarCount_frame:
  "renderer (fst (setStarCount x sf g)) = renderer sf"
  "performanceOptimizations (fst (setStarCount x sf g)) = performanceOptimizations sf"
  "renderingOptimizations (fst (setStarCount x sf g)) = renderingOptimizations sf"
  "originalStarCount (fst (setStarCount x sf g)) = originalStarCount sf"
  by (simp_all add: setStarCount_def Let_def split: prod.splits)

lemma quarter_floor: "\<lfloor>real_of_int c * (1 / 4)\<rfloor> = c div 4"
proof -
  have "\<lfloor>real_of_int c / real_of_int 4\<rfloor> = c div 4"
    by (rule floor_divide_of_int_eq)
  then show ?thesis by simp
qed

lemma low_newCount:
  "Math_max (Num 100)
     (js_sub (Num (of_int c))
        (Math_max (Math_floor (js_mul (Num (of_int c)) (Num (1 / 4)))) (Num 1)))
   = Num (of_int (max 100 (c - max (c div 4) 1)))"
proof -
  have "Math_floor (js_mul (Num (of_int c)) (Num (1 / 4))) = Num (of_int (c div 4))"
    using quarter_floor [of c] by (simp add: Math_floor_def js_mul_def js_lift2_def)
  then show ?thesis
    by (simp add: Math_max_def js_sub_def js_lift2_def of_int_max)
qed

lemma handleLowPerformance_early:
  "now - lastOptimization (performanceOptimizations sf) < 2000 \<Longrightarrow> handleLowPerformance data now sf g = (sf, g)"
  by (simp add: handleLowPerformance_def)

lemma handleLowPerformance_unfold:
  assumes "2000 \<le> now - lastOptimization (performanceOptimizations sf)"
  shows "fst (handleLowPerformance data now sf g) =
    (let sf1 = (if js_gt (starCount sf) (Num (minStarCount (performanceOptimizations sf)))
                then fst (setStarCount
                       (Math_max (Num (minStarCount (performanceOptimizations sf)))
                          (js_sub (starCount sf)
                             (Math_max (Math_floor (js_mul (starCount sf) (Num (reductionStep (performanceOptimizations sf))))) (Num 1))))
                       sf g)
                else sf);
         sf2 = (if data_fps data < 20
                then sf1\<lparr>renderer := setTrailsEnabled False (setGlowEnabled False (renderer sf1)),
                         renderingOptimizations := (renderingOptimizations sf1)\<lparr>skipFrames := 1\<rparr>\<rparr>
                else sf1)
     in sf2\<lparr>performanceOptimizations := (performanceOptimizations sf2)\<lparr>lastOptimization := now\<rparr>\<rparr>)"
  using assms
  by (simp add: handleLowPerformance_def getStarCount_def Let_def case_prod_beta)

lemma handleLowPerformance_count:
  assumes "2000 \<le> now - lastOptimization (performanceOptimizations sf)"
    and "minStarCount (performanceOptimizations sf) = 100"
    and "reductionStep (performanceOptimizations sf) = 1 / 4"
    and "starCount sf = Num (of_int c)"
  shows "starCount (fst (handleLowPerformance data now sf g)) =
           Num (of_int (if 100 < c then min 5000 (max 100 (c - max (c div 4) 1)) else c))"
proof (cases "100 < c")
  case True
  have "starCount (fst (setStarCount (Num (of_int (max 100 (c - max (c div 4) 1)))) sf g))
      = Num (of_int (max 1 (min 5000 (max 100 (c - max (c div 4) 1)))))"
    by (rule setStarCount_count [of "of_int (max 100 (c - max (c div 4) 1))" sf g, simplified floor_of_int])
  moreover have "max 1 (min 5000 (max 100 (c - max (c div 4) 1))) = min 5000 (max 100 (c - max (c div 4) 1))"
    by simp
  ultimately have "starCount (fst (setStarCount (Num (of_int (max 100 (c - max (c div 4) 1)))) sf g))
      = Num (of_int (min 5000 (max 100 (c - max (c div 4) 1))))"
    by (simp only:)
  then show ?thesis
    using True
    by (simp only: handleLowPerformance_unfold [OF assms(1)] assms(2,3,4) low_newCount Let_def)
       (simp add: js_gt_def js_cmp_def)
next
  case False
  then show ?thesis
    by (simp only: handleLowPerformance_unfold [OF assms(1)] assms(2,3,4) Let_def)
       (simp add: js_gt_def js_cmp_def assms(4))
qed

lemma handleLowPerformance_effects:
  assumes "2000 \<le> now - lastOptimization (performanceOptimizations sf)"
  shows "data_fps data < 20 \<Longrightarrow> \<not> enableGlow (config (renderer (fst (handleLowPerformance data now sf g))))"
    and "data_fps data < 20 \<Longrightarrow> \<not> enableTrails (config (renderer (fst (handleLowPerformance data now sf g))))"
    and "data_fps data < 20 \<Longrightarrow> skipFrames (renderingOptimizations (fst (handleLowPerformance data now sf g))) = 1"
    and "20 \<le> data_fps data \<Longrightarrow> renderer (fst (handleLowPerformance data now sf g)) = renderer sf"
    and "20 \<le> data_fps data \<Longrightarrow> renderingOptimizations (fst (handleLowPerformance data now sf g)) = renderingOptimizations sf"
    and "lastOptimization (performanceOptimizations (fst (handleLowPerformance data now sf g))) = now"
  by (simp_all add: handleLowPerformance_unfold [OF assms] Let_def setGlowEnabled_def setTrailsEnabled_def setStarCount_frame)


lemma new_StarField_fields:
  "performanceOptimizations (fst (new_StarField w h n g)) =
     \<lparr>autoOptimize = True, minStarCount = 100, reductionStep = 0.25,
      recoveryDelay = 5000, lastOptimization = 0, lastRecovery = 0\<rparr>"
  "renderingOptimizations (fst (new_StarField w h n g)) =
     \<lparr>frustumCulling = True, ro_batchRendering = True, ro_maxBatchSize = 100,
      skipFrames = 0, frameSkipCounter = 0\<rparr>"
  "renderer (fst (new_StarField w h n g)) = new_Renderer"
  "performanceMonitor (fst (new_StarField w h n g)) =
     new_PerformanceMonitor\<lparr>onLowPerformance := True, onGoodPerformance := True\<rparr>"
  by (simp_all add: new_StarField_def initialize_def setupPerformanceCallbacks_def
        setLowPerformanceCallback_def setGoodPerformanceCallback_def Let_def case_prod_beta)

lemma foldl_add_replicate:
  "foldl (\<lambda>a b. a + b) a (replicate n x) = a + real n * (x :: real)"
  by (induction n arbitrary: a) (simp_all add: algebra_simps)

lemma constant_history_average:
  "getAverageFPS (m\<lparr>fpsHistory := replicate (Suc k) v\<rparr>) = Math_round v"
proof -
  have "(real k * v + v) / (1 + real k) = v"
  proof -
    have "real k * v + v = v * (1 + real k)" by (simp add: algebra_simps)
    then show ?thesis by simp
  qed
  then show ?thesis
    by (simp add: getAverageFPS_def foldl_add_replicate Let_def add.commute)
qed

lemma constant_history_low:
  "onLowPerformance m \<Longrightarrow> lowFpsThreshold m = 30 \<Longrightarrow>
   checkPerformanceThresholds (m\<lparr>fpsHistory := replicate (Suc k) 15\<rparr>) =
     Some (LowPerformance \<lparr>data_fps = 15, data_frameTime = frameTime m, data_type = ''low_fps''\<rparr>)"
proof -
  have "getAverageFPS (m\<lparr>fpsHistory := replicate (Suc k) 15\<rparr>) = 15"
    by (simp only: constant_history_average) (simp add: Math_round_def)
  then show "onLowPerformance m \<Longrightarrow> lowFpsThreshold m = 30 \<Longrightarrow>
   checkPerformanceThresholds (m\<lparr>fpsHistory := replicate (Suc k) 15\<rparr>) =
     Some (LowPerformance \<lparr>data_fps = 15, data_frameTime = frameTime m, data_type = ''low_fps''\<rparr>)"
    by (simp add: checkPerformanceThresholds_def Let_def del: replicate.simps)
qed

lemma constant_history_good:
  "onGoodPerformance m \<Longrightarrow> lowFpsThreshold m = 30 \<Longrightarrow>
   checkPerformanceThresholds (m\<lparr>fpsHistory := replicate (Suc k) 55\<rparr>) =
     Some (GoodPerformance \<lparr>data_fps = 55, data_frameTime = frameTime m, data_type = ''good_fps''\<rparr>)"
proof -
  have "getAverageFPS (m\<lparr>fpsHistory := replicate (Suc k) 55\<rparr>) = 55"
    by (simp only: constant_history_average) (simp add: Math_round_def)
  then show "onGoodPerformance m \<Longrightarrow> lowFpsThreshold m = 30 \<Longrightarrow>
   checkPerformanceThresholds (m\<lparr>fpsHistory := replicate (Suc k) 55\<rparr>) =
     Some (GoodPerformance \<lparr>data_fps = 55, data_frameTime = frameTime m, data_type = ''good_fps''\<rparr>)"
    by (simp add: checkPerformanceThresholds_def Let_def del: replicate.simps)
qed

lemma tenth_floor: "\<lfloor>real_of_int c * (1 / 10)\<rfloor> = c div 10"
proof -
  have "\<lfloor>real_of_int c / real_of_int 10\<rfloor> = c div 10"
    by (rule floor_divide_of_int_eq)
  then show ?thesis by simp
qed

lemma good_recoveryAmount:
  "Math_min (Math_floor (js_mul (Num (of_int orig)) (Num (1 / 10)))) (js_sub (Num (of_int orig)) (Num (of_int c)))
   = Num (of_int (min (orig div 10) (orig - c)))"
proof -
  have "Math_floor (js_mul (Num (of_int orig)) (Num (1 / 10))) = Num (of_int (orig div 10))"
    using tenth_floor [of orig] by (simp add: Math_floor_def js_mul_def js_lift2_def)
  then show ?thesis
    by (simp add: Math_min_def js_sub_def js_lift2_def of_int_min)
qed

lemma handleGoodPerformance_early:
  "now - lastRecovery (performanceOptimizations sf) < recoveryDelay (performanceOptimizations sf) \<Longrightarrow>
   handleGoodPerformance data now sf g = (sf, g)"
  by (simp add: handleGoodPerformance_def)

lemma handleGoodPerformance_unfold:
  assumes "recoveryDelay (performanceOptimizations sf) \<le> now - lastRecovery (performanceOptimizations sf)"
  shows "fst (handleGoodPerformance data now sf g) =
    (let sf3 =
       (if js_lt (starCount sf) (originalStarCount sf) \<and> data_fps data > 50 then
          let recoveryAmount =
                Math_min (Math_floor (js_mul (originalStarCount sf) (Num (1 / 10))))
                         (js_sub (originalStarCount sf) (starCount sf));
              sf1 = (if js_gt recoveryAmount (Num 0)
                     then fst (setStarCount (js_add (starCount sf) recoveryAmount) sf g)
                     else sf)
          in (if \<not> enableGlow (config (renderer sf1)) then
                sf1\<lparr>renderer := setTrailsEnabled True (setGlowEnabled True (renderer sf1)),
                    renderingOptimizations := (renderingOptimizations sf1)\<lparr>skipFrames := 0\<rparr>\<rparr>
              else sf1)
        else sf)
     in sf3\<lparr>performanceOptimizations := (performanceOptimizations sf3)\<lparr>lastRecovery := now\<rparr>\<rparr>)"
  using assms
  by (simp add: handleGoodPerformance_def getStarCount_def Let_def case_prod_beta)

lemma handleGoodPerformance_count:
  assumes "recoveryDelay (performanceOptimizations sf) \<le> now - lastRecovery (performanceOptimizations sf)"
    and "starCount sf = Num (of_int c)"
    and "originalStarCount sf = Num (of_int orig)"
    and "c < orig" and "50 < data_fps data"
  shows "starCount (fst (handleGoodPerformance data now sf g)) =
           Num (of_int (if 0 < min (orig div 10) (orig - c)
                        then max 1 (min 5000 (c + min (orig div 10) (orig - c))) else c))"
proof (cases "0 < min (orig div 10) (orig - c)")
  case True
  have "starCount (fst (setStarCount (Num (of_int (c + min (orig div 10) (orig - c)))) sf g))
      = Num (of_int (max 1 (min 5000 (c + min (orig div 10) (orig - c)))))"
    by (rule setStarCount_count [of "of_int (c + min (orig div 10) (orig - c))" sf g, simplified floor_of_int])
  then show ?thesis
    using True assms(4,5)
    by (simp only: handleGoodPerformance_unfold [OF assms(1)] assms(2,3) good_recoveryAmount Let_def)
       (simp add: js_gt_def js_lt_def js_cmp_def js_add_def js_lift2_def)
next
  case False
  then show ?thesis
    using assms(4,5)
    by (simp only: handleGoodPerformance_unfold [OF assms(1)] assms(2,3) good_recoveryAmount Let_def)
       (simp add: js_gt_def js_lt_def js_cmp_def assms(2))
qed

lemma handleGoodPerformance_effects:
  assumes "recoveryDelay (performanceOptimizations sf) \<le> now - lastRecovery (performanceOptimizations sf)"
    and "js_lt (starCount sf) (originalStarCount sf)" and "50 < data_fps data"
    and "\<not> enableGlow (config (renderer sf))"
  shows "enableGlow (config (renderer (fst (handleGoodPerformance data now sf g))))"
    and "enableTrails (config (renderer (fst (handleGoodPerformance data now sf g))))"
    and "skipFrames (renderingOptimizations (fst (handleGoodPerformance data now sf g))) = 0"
  using assms(2,3,4)
  by (simp_all add: handleGoodPerformance_unfold [OF assms(1)] Let_def setGlowEnabled_def setTrailsEnabled_def setStarCount_frame)

lemma handleLowPerformance_frame:
  shows "originalStarCount (fst (handleLowPerformance data now sf g)) = originalStarCount sf"
    and "recoveryDelay (performanceOptimizations (fst (handleLowPerformance data now sf g))) = recoveryDelay (performanceOptimizations sf)"
    and "lastRecovery (performanceOptimizations (fst (handleLowPerformance data now sf g))) = lastRecovery (performanceOptimizations sf)"
proof -
  consider (early) "now - lastOptimization (performanceOptimizations sf) < 2000"
    | (run) "2000 \<le> now - lastOptimization (performanceOptimizations sf)"
    by linarith
  then have "originalStarCount (fst (handleLowPerformance data now sf g)) = originalStarCount sf
      \<and> recoveryDelay (performanceOptimizations (fst (handleLowPerformance data now sf g))) = recoveryDelay (performanceOptimizations sf)
      \<and> lastRecovery (performanceOptimizations (fst (handleLowPerformance data now sf g))) = lastRecovery (performanceOptimizations sf)"
  proof cases
    case early
    then show ?thesis by (simp add: handleLowPerformance_early)
  next
    case run
    then show ?thesis
      by (simp add: handleLowPerformance_unfold Let_def setStarCount_frame)
  qed
  then show "originalStarCount (fst (handleLowPerformance data now sf g)) = originalStarCount sf"
    and "recoveryDelay (performanceOptimizations (fst (handleLowPerformance data now sf g))) = recoveryDelay (performanceOptimizations sf)"
    and "lastRecovery (performanceOptimizations (fst (handleLowPerformance data now sf g))) = lastRecovery (performanceOptimizations sf)"
    by simp_all
qed

lemma low_response_capped:
  "starCount (fst (new_StarField 800 600 (Num 10000) (\<lambda>n. 1 / 2))) = Num 10000
   \<and> starCount (fst (handleLowPerformance \<lparr>data_fps = 15, data_frameTime = 66, data_type = ''low_fps''\<rparr> 2000
        (fst (new_StarField 800 600 (Num 10000) (\<lambda>n. 1 / 2))) (\<lambda>n. 1 / 2))) = Num 5000
   \<and> starCount (fst (handleLowPerformance \<lparr>data_fps = 15, data_frameTime = 66, data_type = ''low_fps''\<rparr> 2000
        (fst (new_StarField 800 600 (Num 10000) (\<lambda>n. 1 / 2))) (\<lambda>n. 1 / 2)))
      \<noteq> Num (10000 - max (of_int \<lfloor>10000 * (1 / 4) :: real\<rfloor>) 1)"
proof -
  let ?g = "\<lambda>n::nat. 1 / 2 :: real"
  let ?sf = "fst (new_StarField 800 600 (Num 10000) ?g)"
  let ?d = "\<lparr>data_fps = 15, data_frameTime = 66, data_type = ''low_fps''\<rparr>"
  have c: "starCount ?sf = Num (of_int 10000)"
    using new_StarField_count(1) [of 10000 800 600 ?g] by simp
  have "starCount (fst (handleLowPerformance ?d 2000 ?sf ?g)) =
      Num (of_int (if 100 < (10000::int) then min 5000 (max 100 (10000 - max (10000 div 4) 1)) else 10000))"
    by (rule handleLowPerformance_count [OF _ _ _ c]) (simp_all add: new_StarField_fields)
  then have "starCount (fst (handleLowPerformance ?d 2000 ?sf ?g)) = Num 5000"
    by simp
  then show ?thesis
    using c by simp
qed

lemma low_response_below_floor:
  "starCount (fst (setStarCount (Num 50) (fst (new_StarField 800 600 (Num 1000) (\<lambda>n. 1 / 2))) (\<lambda>n. 1 / 2))) = Num 50
   \<and> starCount (fst (handleLowPerformance \<lparr>data_fps = 15, data_frameTime = 66, data_type = ''low_fps''\<rparr> 2000
        (fst (setStarCount (Num 50) (fst (new_StarField 800 600 (Num 1000) (\<lambda>n. 1 / 2))) (\<lambda>n. 1 / 2)))
        (\<lambda>n. 1 / 2))) = Num 50"
proof -
  let ?g = "\<lambda>n::nat. 1 / 2 :: real"
  let ?d = "\<lparr>data_fps = 15, data_frameTime = 66, data_type = ''low_fps''\<rparr>"
  let ?sf = "fst (setStarCount (Num 50) (fst (new_StarField 800 600 (Num 1000) ?g)) ?g)"
  have c: "starCount ?sf = Num (of_int 50)"
    using setStarCount_count [of 50 "fst (new_StarField 800 600 (Num 1000) ?g)" ?g] by simp
  have "starCount (fst (handleLowPerformance ?d 2000 ?sf ?g)) =
      Num (of_int (if 100 < (50::int) then min 5000 (max 100 (50 - max (50 div 4) 1)) else 50))"
    by (rule handleLowPerformance_count [OF _ _ _ c]) (simp_all add: setStarCount_frame new_StarField_fields)
  then show ?thesis
    using c by simp
qed

text \<open>
  Claim C4, as stated: the low-performance response shrinks the star count by
  \<open>max(floor(count * 0.25), 1)\<close>, never below 100.  The handler passes the reduced count
  to \<open>setStarCount\<close>, which clamps it to \<open>[1, 5000]\<close>: on a star field constructed with
  10000 stars the reduced count is 7500 and the count stored is 5000.  The handler
  reduces only a count above \<open>minStarCount\<close>: on a star field set to 50 stars the count
  after the response is still 50, below 100.
\<close>

theorem C4_low_performance_counterexample:
  "starCount (fst (handleLowPerformance \<lparr>data_fps = 15, data_frameTime = 66, data_type = ''low_fps''\<rparr> 2000
        (fst (new_StarField 800 600 (Num 10000) (\<lambda>n. 1 / 2))) (\<lambda>n. 1 / 2)))
      \<noteq> Num (10000 - max (of_int \<lfloor>10000 * (1 / 4) :: real\<rfloor>) 1)
   \<and> starCount (fst (handleLowPerformance \<lparr>data_fps = 15, data_frameTime = 66, data_type = ''low_fps''\<rparr> 2000
        (fst (setStarCount (Num 50) (fst (new_StarField 800 600 (Num 1000) (\<lambda>n. 1 / 2))) (\<lambda>n. 1 / 2)))
        (\<lambda>n. 1 / 2))) = Num 50"
  using low_response_capped low_response_below_floor by blast

text \<open>
  Claim C4, amended.  A history of consecutive 15-FPS readings makes the monitor pass a
  low-performance notification with \<open>fps = 15\<close>; the star field's callback calls
  \<open>handleLowPerformance\<close> when automatic optimization is on.  Less than 2 seconds after
  the last optimization the handler changes nothing.  Otherwise, with the constructor's
  settings (\<open>minStarCount = 100\<close>, \<open>reductionStep = 0.25\<close>), a count above 100 shrinks by
  \<open>max(floor(count * 0.25), 1)\<close>, never below 100, the result capped at 5000 by
  \<open>setStarCount\<close>, and a count of 100 or less is left as it is; so for a count in
  \<open>[100, 5000]\<close> the new count is \<open>max(100, count - max(floor(count * 0.25), 1))\<close>.  If
  the reported FPS is below 20, glow and trails are disabled and \<open>skipFrames\<close> is set to
  1 (every other frame is skipped); otherwise the renderer and the frame skipping are
  unchanged.  From count 1000 the resulting count is 750.
\<close>

theorem C4_low_performance_response:
  "(onLowPerformance m \<and> lowFpsThreshold m = 30 \<longrightarrow>
      checkPerformanceThresholds (m\<lparr>fpsHistory := replicate (Suc k) 15\<rparr>) =
        Some (LowPerformance \<lparr>data_fps = 15, data_frameTime = frameTime m, data_type = ''low_fps''\<rparr>))
   \<and> onPerformanceEvent (LowPerformance data) now sf g =
        (if autoOptimize (performanceOptimizations sf) then handleLowPerformance data now sf g else (sf, g))
   \<and> (now - lastOptimization (performanceOptimizations sf) < 2000 \<longrightarrow>
      handleLowPerformance data now sf g = (sf, g))
   \<and> (2000 \<le> now - lastOptimization (performanceOptimizations sf)
       \<and> minStarCount (performanceOptimizations sf) = 100
       \<and> reductionStep (performanceOptimizations sf) = 1 / 4
       \<and> starCount sf = Num (of_int c) \<longrightarrow>
         starCount (fst (handleLowPerformance data now sf g)) =
           Num (of_int (if 100 < c then min 5000 (max 100 (c - max (c div 4) 1)) else c))
       \<and> (100 \<le> c \<and> c \<le> 5000 \<longrightarrow>
            starCount (fst (handleLowPerformance data now sf g)) = Num (of_int (max 100 (c - max (c div 4) 1))))
       \<and> (data_fps data < 20 \<longrightarrow>
            \<not> enableGlow (config (renderer (fst (handleLowPerformance data now sf g))))
          \<and> \<not> enableTrails (config (renderer (fst (handleLowPerformance data now sf g))))
          \<and> skipFrames (renderingOptimizations (fst (handleLowPerformance data now sf g))) = 1)
       \<and> (20 \<le> data_fps data \<longrightarrow>
            renderer (fst (handleLowPerformance data now sf g)) = renderer sf
          \<and> renderingOptimizations (fst (handleLowPerformance data now sf g)) = renderingOptimizations sf))"
proof -
  have a: "now - lastOptimization (performanceOptimizations sf) < 2000 \<Longrightarrow> handleLowPerformance data now sf g = (sf, g)"
    by (rule handleLowPerformance_early)
  have b: "(if 100 < c then min 5000 (max 100 (c - max (c div 4) 1)) else c) = max 100 (c - max (c div 4) 1)"
    if "100 \<le> c" "c \<le> 5000"
    using that by (simp add: max_def min_def)
  have ev: "onPerformanceEvent (LowPerformance data) now sf g =
        (if autoOptimize (performanceOptimizations sf) then handleLowPerformance data now sf g else (sf, g))"
    by (simp add: onPerformanceEvent_def)
  show ?thesis
    using a b handleLowPerformance_count [of now sf c data g] handleLowPerformance_effects [of now sf data g]
      constant_history_low [of m k]
    by (simp (no_asm_simp) del: replicate.simps add: ev)
qed



theorem C4_low_performance_witness:
  "checkPerformanceThresholds
      ((performanceMonitor (fst (new_StarField 800 600 (Num 1000) (\<lambda>n. 1 / 2))))\<lparr>fpsHistory := replicate 30 15\<rparr>)
     = Some (LowPerformance \<lparr>data_fps = 15, data_frameTime = 0, data_type = ''low_fps''\<rparr>)
   \<and> starCount (fst (onPerformanceEvent (LowPerformance \<lparr>data_fps = 15, data_frameTime = 0, data_type = ''low_fps''\<rparr>)
        2000 (fst (new_StarField 800 600 (Num 1000) (\<lambda>n. 1 / 2))) (\<lambda>n. 1 / 2))) = Num 750
   \<and> enableGlow (config (renderer (fst (new_StarField 800 600 (Num 1000) (\<lambda>n. 1 / 2)))))
   \<and> \<not> enableGlow (config (renderer (fst (onPerformanceEvent (LowPerformance \<lparr>data_fps = 15, data_frameTime = 0, data_type = ''low_fps''\<rparr>)
        2000 (fst (new_StarField 800 600 (Num 1000) (\<lambda>n. 1 / 2))) (\<lambda>n. 1 / 2)))))
   \<and> \<not> enableTrails (config (renderer (fst (onPerformanceEvent (LowPerformance \<lparr>data_fps = 15, data_frameTime = 0, data_type = ''low_fps''\<rparr>)
        2000 (fst (new_StarField 800 600 (Num 1000) (\<lambda>n. 1 / 2))) (\<lambda>n. 1 / 2)))))
   \<and> skipFrames (renderingOptimizations (fst (onPerformanceEvent (LowPerformance \<lparr>data_fps = 15, data_frameTime = 0, data_type = ''low_fps''\<rparr>)
        2000 (fst (new_StarField 800 600 (Num 1000) (\<lambda>n. 1 / 2))) (\<lambda>n. 1 / 2)))) = 1
   \<and> handleLowPerformance \<lparr>data_fps = 15, data_frameTime = 0, data_type = ''low_fps''\<rparr>
        1999 (fst (new_StarField 800 600 (Num 1000) (\<lambda>n. 1 / 2))) (\<lambda>n. 1 / 2)
       = (fst (new_StarField 800 600 (Num 1000) (\<lambda>n. 1 / 2)), (\<lambda>n. 1 / 2))
   \<and> enableGlow (config (renderer (fst (handleLowPerformance \<lparr>data_fps = 25, data_frameTime = 0, data_type = ''low_fps''\<rparr>
        2000 (fst (new_StarField 800 600 (Num 1000) (\<lambda>n. 1 / 2))) (\<lambda>n. 1 / 2)))))"
proof -
  let ?g = "\<lambda>n::nat. 1 / 2 :: real"
  let ?sf = "fst (new_StarField 800 600 (Num 1000) ?g)"
  let ?d = "\<lparr>data_fps = 15, data_frameTime = 0, data_type = ''low_fps''\<rparr>"
  let ?d25 = "\<lparr>data_fps = 25, data_frameTime = 0, data_type = ''low_fps''\<rparr>"
  let ?m = "performanceMonitor ?sf"
  have c: "starCount ?sf = Num (of_int 1000)"
    using new_StarField_count(1) [of 1000 800 600 ?g] by simp
  have po: "lastOptimization (performanceOptimizations ?sf) = 0"
    "minStarCount (performanceOptimizations ?sf) = 100"
    "reductionStep (performanceOptimizations ?sf) = 1 / 4"
    "autoOptimize (performanceOptimizations ?sf)"
    by (simp_all add: new_StarField_fields)
  have m: "onLowPerformance ?m" "lowFpsThreshold ?m = 30" "frameTime ?m = 0"
    by (simp_all add: new_StarField_fields new_PerformanceMonitor_def)
  have glow: "enableGlow (config (renderer ?sf))"
    by (simp add: new_StarField_fields new_Renderer_def)
  have ev: "onPerformanceEvent (LowPerformance ?d) 2000 ?sf ?g = handleLowPerformance ?d 2000 ?sf ?g"
    by (simp add: onPerformanceEvent_def po)
  have thirty: "replicate 30 (15::real) = replicate (Suc 29) 15"
    by simp
  note main = C4_low_performance_response [where m = ?m and k = 29 and now = 2000 and sf = ?sf and data = ?d and g = ?g and c = 1000]
  note early = C4_low_performance_response [where m = ?m and k = 29 and now = 1999 and sf = ?sf and data = ?d and g = ?g and c = 1000]
  note mild = C4_low_performance_response [where m = ?m and k = 29 and now = 2000 and sf = ?sf and data = ?d25 and g = ?g and c = 1000]
  have a: "checkPerformanceThresholds (?m\<lparr>fpsHistory := replicate 30 15\<rparr>) = Some (LowPerformance ?d)"
    using main m by (simp only: thirty)
  have b: "starCount (fst (handleLowPerformance ?d 2000 ?sf ?g)) = Num 750
      \<and> \<not> enableGlow (config (renderer (fst (handleLowPerformance ?d 2000 ?sf ?g))))
      \<and> \<not> enableTrails (config (renderer (fst (handleLowPerformance ?d 2000 ?sf ?g))))
      \<and> skipFrames (renderingOptimizations (fst (handleLowPerformance ?d 2000 ?sf ?g))) = 1"
    using main c po by simp
  have e: "handleLowPerformance ?d 1999 ?sf ?g = (?sf, ?g)"
    using early po by simp
  have f: "enableGlow (config (renderer (fst (handleLowPerformance ?d25 2000 ?sf ?g))))"
    using mild c po glow by simp
  show ?thesis
    using a b e f glow by (simp only: ev) simp
qed


lemma throttled_state:
  assumes "0 \<le> n"
  shows "starCount (fst (handleLowPerformance \<lparr>data_fps = 15, data_frameTime = 0, data_type = ''low_fps''\<rparr> 2000
            (fst (new_StarField w h (Num (of_int n)) g)) g'))
         = Num (of_int (if 100 < n then min 5000 (max 100 (n - max (n div 4) 1)) else n))"
    and "originalStarCount (fst (handleLowPerformance \<lparr>data_fps = 15, data_frameTime = 0, data_type = ''low_fps''\<rparr> 2000
            (fst (new_StarField w h (Num (of_int n)) g)) g')) = Num (of_int n)"
    and "recoveryDelay (performanceOptimizations (fst (handleLowPerformance \<lparr>data_fps = 15, data_frameTime = 0, data_type = ''low_fps''\<rparr> 2000
            (fst (new_StarField w h (Num (of_int n)) g)) g'))) = 5000"
    and "lastRecovery (performanceOptimizations (fst (handleLowPerformance \<lparr>data_fps = 15, data_frameTime = 0, data_type = ''low_fps''\<rparr> 2000
            (fst (new_StarField w h (Num (of_int n)) g)) g'))) = 0"
    and "\<not> enableGlow (config (renderer (fst (handleLowPerformance \<lparr>data_fps = 15, data_frameTime = 0, data_type = ''low_fps''\<rparr> 2000
            (fst (new_StarField w h (Num (of_int n)) g)) g'))))"
proof -
  let ?sf = "fst (new_StarField w h (Num (of_int n)) g)"
  let ?d = "\<lparr>data_fps = 15, data_frameTime = 0, data_type = ''low_fps''\<rparr>"
  have t: "2000 \<le> 2000 - lastOptimization (performanceOptimizations ?sf)"
    by (simp add: new_StarField_fields)
  show "starCount (fst (handleLowPerformance ?d 2000 ?sf g'))
         = Num (of_int (if 100 < n then min 5000 (max 100 (n - max (n div 4) 1)) else n))"
    by (rule handleLowPerformance_count [OF t]) (simp_all add: new_StarField_fields new_StarField_count [OF assms])
  show "originalStarCount (fst (handleLowPerformance ?d 2000 ?sf g')) = Num (of_int n)"
    by (simp add: handleLowPerformance_frame new_StarField_count [OF assms])
  show "recoveryDelay (performanceOptimizations (fst (handleLowPerformance ?d 2000 ?sf g'))) = 5000"
    by (simp add: handleLowPerformance_frame new_StarField_fields)
  show "lastRecovery (performanceOptimizations (fst (handleLowPerformance ?d 2000 ?sf g'))) = 0"
    by (simp add: handleLowPerformance_frame new_StarField_fields)
  show "\<not> enableGlow (config (renderer (fst (handleLowPerformance ?d 2000 ?sf g'))))"
    by (rule handleLowPerformance_effects(1) [OF t]) simp
qed

text \<open>
  Two runs of the recovery handler.  In the first a field constructed with 10000 stars
  has been throttled to 5000: the recovered count 6000 is clamped to 5000 by
  \<open>setStarCount\<close>, so the count does not grow.  In the second a field constructed with 100
  stars has had its effects disabled by a low-performance response: its count is not
  below the original count, and the handler leaves glow and frame skipping as they are.
\<close>

lemma recovery_capped:
  "starCount (fst (handleLowPerformance \<lparr>data_fps = 15, data_frameTime = 0, data_type = ''low_fps''\<rparr> 2000
        (fst (new_StarField 800 600 (Num 10000) (\<lambda>n. 1 / 2))) (\<lambda>n. 1 / 2))) = Num 5000
   \<and> originalStarCount (fst (handleLowPerformance \<lparr>data_fps = 15, data_frameTime = 0, data_type = ''low_fps''\<rparr> 2000
        (fst (new_StarField 800 600 (Num 10000) (\<lambda>n. 1 / 2))) (\<lambda>n. 1 / 2))) = Num 10000
   \<and> starCount (fst (handleGoodPerformance \<lparr>data_fps = 55, data_frameTime = 0, data_type = ''good_fps''\<rparr> 10000
        (fst (handleLowPerformance \<lparr>data_fps = 15, data_frameTime = 0, data_type = ''low_fps''\<rparr> 2000
           (fst (new_StarField 800 600 (Num 10000) (\<lambda>n. 1 / 2))) (\<lambda>n. 1 / 2)))
        (\<lambda>n. 1 / 2))) = Num 5000
   \<and> starCount (fst (handleGoodPerformance \<lparr>data_fps = 55, data_frameTime = 0, data_type = ''good_fps''\<rparr> 10000
        (fst (handleLowPerformance \<lparr>data_fps = 15, data_frameTime = 0, data_type = ''low_fps''\<rparr> 2000
           (fst (new_StarField 800 600 (Num 10000) (\<lambda>n. 1 / 2))) (\<lambda>n. 1 / 2)))
        (\<lambda>n. 1 / 2)))
      \<noteq> Num (5000 + min (of_int \<lfloor>10000 * (1 / 10) :: real\<rfloor>) (10000 - 5000))"
proof -
  let ?g = "\<lambda>n::nat. 1 / 2 :: real"
  let ?d = "\<lparr>data_fps = 15, data_frameTime = 0, data_type = ''low_fps''\<rparr>"
  let ?d55 = "\<lparr>data_fps = 55, data_frameTime = 0, data_type = ''good_fps''\<rparr>"
  let ?sf = "fst (handleLowPerformance ?d 2000 (fst (new_StarField 800 600 (Num 10000) ?g)) ?g)"
  note th = throttled_state [of 10000 800 600 ?g ?g, simplified]
  have c: "starCount ?sf = Num (of_int 5000)" and o: "originalStarCount ?sf = Num (of_int 10000)"
    using th by simp_all
  have t: "recoveryDelay (performanceOptimizations ?sf) \<le> 10000 - lastRecovery (performanceOptimizations ?sf)"
    using th by simp
  have "starCount (fst (handleGoodPerformance ?d55 10000 ?sf ?g)) =
      Num (of_int (if 0 < min ((10000::int) div 10) (10000 - 5000)
                   then max 1 (min 5000 (5000 + min (10000 div 10) (10000 - 5000))) else 5000))"
    by (rule handleGoodPerformance_count [OF t c o]) simp_all
  then have "starCount (fst (handleGoodPerformance ?d55 10000 ?sf ?g)) = Num 5000"
    by simp
  then show ?thesis
    using c o by simp
qed

lemma handleGoodPerformance_not_below:
  assumes "recoveryDelay (performanceOptimizations sf) \<le> now - lastRecovery (performanceOptimizations sf)"
    and "\<not> js_lt (starCount sf) (originalStarCount sf)"
  shows "renderer (fst (handleGoodPerformance data now sf g)) = renderer sf"
    and "renderingOptimizations (fst (handleGoodPerformance data now sf g)) = renderingOptimizations sf"
    and "starCount (fst (handleGoodPerformance data now sf g)) = starCount sf"
  using assms(2) by (simp_all add: handleGoodPerformance_unfold [OF assms(1)] Let_def)

lemma recovery_effects_stuck:
  "starCount (fst (handleLowPerformance \<lparr>data_fps = 15, data_frameTime = 0, data_type = ''low_fps''\<rparr> 2000
        (fst (new_StarField 800 600 (Num 100) (\<lambda>n. 1 / 2))) (\<lambda>n. 1 / 2))) = Num 100
   \<and> \<not> enableGlow (config (renderer (fst (handleLowPerformance \<lparr>data_fps = 15, data_frameTime = 0, data_type = ''low_fps''\<rparr> 2000
        (fst (new_StarField 800 600 (Num 100) (\<lambda>n. 1 / 2))) (\<lambda>n. 1 / 2)))))
   \<and> \<not> enableGlow (config (renderer (fst (handleGoodPerformance \<lparr>data_fps = 55, data_frameTime = 0, data_type = ''good_fps''\<rparr> 10000
        (fst (handleLowPerformance \<lparr>data_fps = 15, data_frameTime = 0, data_type = ''low_fps''\<rparr> 2000
           (fst (new_StarField 800 600 (Num 100) (\<lambda>n. 1 / 2))) (\<lambda>n. 1 / 2)))
        (\<lambda>n. 1 / 2)))))
   \<and> skipFrames (renderingOptimizations (fst (handleGoodPerformance \<lparr>data_fps = 55, data_frameTime = 0, data_type = ''good_fps''\<rparr> 10000
        (fst (handleLowPerformance \<lparr>data_fps = 15, data_frameTime = 0, data_type = ''low_fps''\<rparr> 2000
           (fst (new_StarField 800 600 (Num 100) (\<lambda>n. 1 / 2))) (\<lambda>n. 1 / 2)))
        (\<lambda>n. 1 / 2)))) = 1"
proof -
  let ?g = "\<lambda>n::nat. 1 / 2 :: real"
  let ?d = "\<lparr>data_fps = 15, data_frameTime = 0, data_type = ''low_fps''\<rparr>"
  let ?d55 = "\<lparr>data_fps = 55, data_frameTime = 0, data_type = ''good_fps''\<rparr>"
  let ?init = "fst (new_StarField 800 600 (Num 100) ?g)"
  let ?sf = "fst (handleLowPerformance ?d 2000 ?init ?g)"
  note th = throttled_state [of 100 800 600 ?g ?g, simplified]
  have c: "starCount ?sf = Num 100" and o: "originalStarCount ?sf = Num 100"
    using th by simp_all
  have t: "recoveryDelay (performanceOptimizations ?sf) \<le> 10000 - lastRecovery (performanceOptimizations ?sf)"
    using th by simp
  have dark: "\<not> enableGlow (config (renderer ?sf))"
    using th by simp
  have "2000 \<le> 2000 - lastOptimization (performanceOptimizations ?init)"
    by (simp add: new_StarField_fields)
  then have skip: "skipFrames (renderingOptimizations ?sf) = 1"
    by (rule handleLowPerformance_effects(3)) simp
  have nlt: "\<not> js_lt (starCount ?sf) (originalStarCount ?sf)"
    by (simp add: c o js_lt_def js_cmp_def)
  show ?thesis
    using c dark skip by (simp add: handleGoodPerformance_not_below [OF t nlt])
qed

text \<open>
  Claim C5, as stated: on a good-performance notification, if the count is below the
  original count and FPS > 50 the count grows by
  \<open>min(floor(originalCount * 0.1), originalCount - currentCount)\<close>, and if glow and trails
  were auto-disabled they are re-enabled and frame skipping stops.  The count does not
  grow from 5000 towards an original count of 10000, and the effects stay disabled when
  the count is not below the original count.
\<close>

theorem C5_recovery_counterexample:
  "starCount (fst (handleGoodPerformance \<lparr>data_fps = 55, data_frameTime = 0, data_type = ''good_fps''\<rparr> 10000
        (fst (handleLowPerformance \<lparr>data_fps = 15, data_frameTime = 0, data_type = ''low_fps''\<rparr> 2000
           (fst (new_StarField 800 600 (Num 10000) (\<lambda>n. 1 / 2))) (\<lambda>n. 1 / 2)))
        (\<lambda>n. 1 / 2)))
      \<noteq> Num (5000 + min (of_int \<lfloor>10000 * (1 / 10) :: real\<rfloor>) (10000 - 5000))
   \<and> \<not> enableGlow (config (renderer (fst (handleGoodPerformance \<lparr>data_fps = 55, data_frameTime = 0, data_type = ''good_fps''\<rparr> 10000
        (fst (handleLowPerformance \<lparr>data_fps = 15, data_frameTime = 0, data_type = ''low_fps''\<rparr> 2000
           (fst (new_StarField 800 600 (Num 100) (\<lambda>n. 1 / 2))) (\<lambda>n. 1 / 2)))
        (\<lambda>n. 1 / 2)))))"
  using recovery_capped recovery_effects_stuck by blast

text \<open>
  Claim C5, amended.  A history of consecutive 55-FPS readings makes the monitor pass a
  good-performance notification with \<open>fps = 55\<close>; the star field's callback calls
  \<open>handleGoodPerformance\<close> when automatic optimization is on.  Before the recovery delay
  has elapsed the handler changes nothing.  Otherwise, if the count is below the
  original count and FPS > 50, the count grows by
  \<open>min(floor(originalCount * 0.1), originalCount - currentCount)\<close> when that amount is
  positive, the result clamped to \<open>[1, 5000]\<close> by \<open>setStarCount\<close>; the new count never
  exceeds the original count, and for an original count of at most 5000 the count grows
  by exactly that amount.  In that same case, if glow is disabled, glow and trails are enabled
  and \<open>skipFrames\<close> is set to 0.  From count 750 with original count 1000 the count
  becomes 850.
\<close>

theorem C5_recovery_response:
  "(onGoodPerformance m \<and> lowFpsThreshold m = 30 \<longrightarrow>
      checkPerformanceThresholds (m\<lparr>fpsHistory := replicate (Suc k) 55\<rparr>) =
        Some (GoodPerformance \<lparr>data_fps = 55, data_frameTime = frameTime m, data_type = ''good_fps''\<rparr>))
   \<and> onPerformanceEvent (GoodPerformance data) now sf g =
        (if autoOptimize (performanceOptimizations sf) then handleGoodPerformance data now sf g else (sf, g))
   \<and> (now - lastRecovery (performanceOptimizations sf) < recoveryDelay (performanceOptimizations sf) \<longrightarrow>
      handleGoodPerformance data now sf g = (sf, g))
   \<and> (recoveryDelay (performanceOptimizations sf) \<le> now - lastRecovery (performanceOptimizations sf)
       \<and> starCount sf = Num (of_int c) \<and> originalStarCount sf = Num (of_int orig)
       \<and> c < orig \<and> 50 < data_fps data \<longrightarrow>
         starCount (fst (handleGoodPerformance data now sf g)) =
           Num (of_int (if 0 < min (orig div 10) (orig - c)
                        then max 1 (min 5000 (c + min (orig div 10) (orig - c))) else c))
       \<and> (if 0 < min (orig div 10) (orig - c)
            then max 1 (min 5000 (c + min (orig div 10) (orig - c))) else c) \<le> orig
       \<and> (0 \<le> c \<and> orig \<le> 5000 \<longrightarrow>
            starCount (fst (handleGoodPerformance data now sf g)) = Num (of_int (c + min (orig div 10) (orig - c))))
       \<and> (\<not> enableGlow (config (renderer sf)) \<longrightarrow>
            enableGlow (config (renderer (fst (handleGoodPerformance data now sf g))))
          \<and> enableTrails (config (renderer (fst (handleGoodPerformance data now sf g))))
          \<and> skipFrames (renderingOptimizations (fst (handleGoodPerformance data now sf g))) = 0))"
proof -
  let ?a = "min (orig div 10) (orig - c)"
  let ?sf' = "fst (handleGoodPerformance data now sf g)"
  have p1: "onGoodPerformance m \<and> lowFpsThreshold m = 30 \<longrightarrow>
      checkPerformanceThresholds (m\<lparr>fpsHistory := replicate (Suc k) 55\<rparr>) =
        Some (GoodPerformance \<lparr>data_fps = 55, data_frameTime = frameTime m, data_type = ''good_fps''\<rparr>)"
    using constant_history_good [of m k] by blast
  have p2: "now - lastRecovery (performanceOptimizations sf) < recoveryDelay (performanceOptimizations sf) \<longrightarrow>
      handleGoodPerformance data now sf g = (sf, g)"
    using handleGoodPerformance_early [of now sf data g] by blast
  have p3: "recoveryDelay (performanceOptimizations sf) \<le> now - lastRecovery (performanceOptimizations sf)
       \<and> starCount sf = Num (of_int c) \<and> originalStarCount sf = Num (of_int orig)
       \<and> c < orig \<and> 50 < data_fps data \<longrightarrow>
         starCount ?sf' = Num (of_int (if 0 < ?a then max 1 (min 5000 (c + ?a)) else c))
       \<and> (if 0 < ?a then max 1 (min 5000 (c + ?a)) else c) \<le> orig
       \<and> (0 \<le> c \<and> orig \<le> 5000 \<longrightarrow> starCount ?sf' = Num (of_int (c + ?a)))
       \<and> (\<not> enableGlow (config (renderer sf)) \<longrightarrow>
            enableGlow (config (renderer ?sf')) \<and> enableTrails (config (renderer ?sf'))
          \<and> skipFrames (renderingOptimizations ?sf') = 0)"
  proof (intro impI)
    assume h: "recoveryDelay (performanceOptimizations sf) \<le> now - lastRecovery (performanceOptimizations sf)
       \<and> starCount sf = Num (of_int c) \<and> originalStarCount sf = Num (of_int orig)
       \<and> c < orig \<and> 50 < data_fps data"
    then have h1: "recoveryDelay (performanceOptimizations sf) \<le> now - lastRecovery (performanceOptimizations sf)"
      and h2: "starCount sf = Num (of_int c)" and h3: "originalStarCount sf = Num (of_int orig)"
      and h4: "c < orig" and h5: "50 < data_fps data"
      by simp_all
    have q1: "starCount ?sf' = Num (of_int (if 0 < ?a then max 1 (min 5000 (c + ?a)) else c))"
      by (rule handleGoodPerformance_count [OF h1 h2 h3 h4 h5])
    have le: "c + ?a \<le> orig"
      by simp
    have "(if 0 < ?a then max 1 (min 5000 (c + ?a)) else c) = c + ?a" if "0 \<le> c" "orig \<le> 5000"
    proof (cases "0 < ?a")
      case True
      then have "1 \<le> c + ?a" using that(1) by linarith
      moreover have "c + ?a \<le> 5000" using le that(2) by linarith
      ultimately show ?thesis using True by simp
    next
      case False
      moreover have "0 \<le> orig div 10" using h4 that(1) by (simp add: pos_imp_zdiv_nonneg_iff)
      then have "0 \<le> ?a" using h4 by simp
      ultimately have "?a = 0" by linarith
      then show ?thesis by simp
    qed
    with q1 have q2: "0 \<le> c \<and> orig \<le> 5000 \<longrightarrow> starCount ?sf' = Num (of_int (c + ?a))"
      by simp
    have q4: "(if 0 < ?a then max 1 (min 5000 (c + ?a)) else c) \<le> orig"
    proof (cases "0 < ?a")
      case True
      then have "0 < orig div 10" by simp
      then have "10 \<le> orig" by (simp add: pos_imp_zdiv_pos_iff)
      with le True show ?thesis by simp
    next
      case False
      with h4 show ?thesis by simp
    qed
    have lt: "js_lt (starCount sf) (originalStarCount sf)"
      using h4 by (simp add: h2 h3 js_lt_def js_cmp_def)
    have q3: "\<not> enableGlow (config (renderer sf)) \<longrightarrow>
            enableGlow (config (renderer ?sf')) \<and> enableTrails (config (renderer ?sf'))
          \<and> skipFrames (renderingOptimizations ?sf') = 0"
      using handleGoodPerformance_effects [OF h1 lt h5, of g] by blast
    show "starCount ?sf' = Num (of_int (if 0 < ?a then max 1 (min 5000 (c + ?a)) else c))
       \<and> (if 0 < ?a then max 1 (min 5000 (c + ?a)) else c) \<le> orig
       \<and> (0 \<le> c \<and> orig \<le> 5000 \<longrightarrow> starCount ?sf' = Num (of_int (c + ?a)))
       \<and> (\<not> enableGlow (config (renderer sf)) \<longrightarrow>
            enableGlow (config (renderer ?sf')) \<and> enableTrails (config (renderer ?sf'))
          \<and> skipFrames (renderingOptimizations ?sf') = 0)"
      using q1 q2 q3 q4 by blast
  qed
  have p0: "onPerformanceEvent (GoodPerformance data) now sf g =
        (if autoOptimize (performanceOptimizations sf) then handleGoodPerformance data now sf g else (sf, g))"
    by (simp add: onPerformanceEvent_def)
  show ?thesis
    using p0 p1 p2 p3 by blast
qed

theorem C5_recovery_witness:
  "checkPerformanceThresholds
      ((performanceMonitor (fst (new_StarField 800 600 (Num 1000) (\<lambda>n. 1 / 2))))\<lparr>fpsHistory := replicate 5 55\<rparr>)
     = Some (GoodPerformance \<lparr>data_fps = 55, data_frameTime = 0, data_type = ''good_fps''\<rparr>)
   \<and> starCount (fst (handleLowPerformance \<lparr>data_fps = 15, data_frameTime = 0, data_type = ''low_fps''\<rparr> 2000
        (fst (new_StarField 800 600 (Num 1000) (\<lambda>n. 1 / 2))) (\<lambda>n. 1 / 2))) = Num 750
   \<and> starCount (fst (onPerformanceEvent (GoodPerformance \<lparr>data_fps = 55, data_frameTime = 0, data_type = ''good_fps''\<rparr>) 7000
        (fst (handleLowPerformance \<lparr>data_fps = 15, data_frameTime = 0, data_type = ''low_fps''\<rparr> 2000
           (fst (new_StarField 800 600 (Num 1000) (\<lambda>n. 1 / 2))) (\<lambda>n. 1 / 2)))
        (\<lambda>n. 1 / 2))) = Num 850
   \<and> enableGlow (config (renderer (fst (onPerformanceEvent (GoodPerformance \<lparr>data_fps = 55, data_frameTime = 0, data_type = ''good_fps''\<rparr>) 7000
        (fst (handleLowPerformance \<lparr>data_fps = 15, data_frameTime = 0, data_type = ''low_fps''\<rparr> 2000
           (fst (new_StarField 800 600 (Num 1000) (\<lambda>n. 1 / 2))) (\<lambda>n. 1 / 2)))
        (\<lambda>n. 1 / 2)))))
   \<and> enableTrails (config (renderer (fst (onPerformanceEvent (GoodPerformance \<lparr>data_fps = 55, data_frameTime = 0, data_type = ''good_fps''\<rparr>) 7000
        (fst (handleLowPerformance \<lparr>data_fps = 15, data_frameTime = 0, data_type = ''low_fps''\<rparr> 2000
           (fst (new_StarField 800 600 (Num 1000) (\<lambda>n. 1 / 2))) (\<lambda>n. 1 / 2)))
        (\<lambda>n. 1 / 2)))))
   \<and> skipFrames (renderingOptimizations (fst (onPerformanceEvent (GoodPerformance \<lparr>data_fps = 55, data_frameTime = 0, data_type = ''good_fps''\<rparr>) 7000
        (fst (handleLowPerformance \<lparr>data_fps = 15, data_frameTime = 0, data_type = ''low_fps''\<rparr> 2000
           (fst (new_StarField 800 600 (Num 1000) (\<lambda>n. 1 / 2))) (\<lambda>n. 1 / 2)))
        (\<lambda>n. 1 / 2)))) = 0
   \<and> handleGoodPerformance \<lparr>data_fps = 55, data_frameTime = 0, data_type = ''good_fps''\<rparr> 4999
        (fst (handleLowPerformance \<lparr>data_fps = 15, data_frameTime = 0, data_type = ''low_fps''\<rparr> 2000
           (fst (new_StarField 800 600 (Num 1000) (\<lambda>n. 1 / 2))) (\<lambda>n. 1 / 2)))
        (\<lambda>n. 1 / 2)
      = (fst (handleLowPerformance \<lparr>data_fps = 15, data_frameTime = 0, data_type = ''low_fps''\<rparr> 2000
           (fst (new_StarField 800 600 (Num 1000) (\<lambda>n. 1 / 2))) (\<lambda>n. 1 / 2)), (\<lambda>n. 1 / 2))"
proof -
  let ?g = "\<lambda>n::nat. 1 / 2 :: real"
  let ?init = "fst (new_StarField 800 600 (Num 1000) ?g)"
  let ?d = "\<lparr>data_fps = 15, data_frameTime = 0, data_type = ''low_fps''\<rparr>"
  let ?d55 = "\<lparr>data_fps = 55, data_frameTime = 0, data_type = ''good_fps''\<rparr>"
  let ?sf = "fst (handleLowPerformance ?d 2000 ?init ?g)"
  let ?m = "performanceMonitor ?init"
  note th = throttled_state [of 1000 800 600 ?g ?g, simplified]
  have c: "starCount ?sf = Num (of_int 750)" and o: "originalStarCount ?sf = Num (of_int 1000)"
    using th by simp_all
  have po: "recoveryDelay (performanceOptimizations ?sf) = 5000" "lastRecovery (performanceOptimizations ?sf) = 0"
    using th by simp_all
  have dark: "\<not> enableGlow (config (renderer ?sf))"
    using th by simp
  have auto: "autoOptimize (performanceOptimizations ?sf)"
    by (simp add: handleLowPerformance_unfold new_StarField_fields Let_def setStarCount_frame)
  have m: "onGoodPerformance ?m" "lowFpsThreshold ?m = 30" "frameTime ?m = 0"
    by (simp_all add: new_StarField_fields new_PerformanceMonitor_def)
  have ev: "onPerformanceEvent (GoodPerformance ?d55) 7000 ?sf ?g = handleGoodPerformance ?d55 7000 ?sf ?g"
    using auto by (simp add: onPerformanceEvent_def)
  have five: "replicate 5 (55::real) = replicate (Suc 4) 55"
    by (simp add: eval_nat_numeral)
  note main = C5_recovery_response [where m = ?m and k = 4 and now = 7000 and sf = ?sf and data = ?d55 and g = ?g and c = 750 and orig = 1000]
  note early = C5_recovery_response [where m = ?m and k = 4 and now = 4999 and sf = ?sf and data = ?d55 and g = ?g and c = 750 and orig = 1000]
  have a: "checkPerformanceThresholds (?m\<lparr>fpsHistory := replicate 5 55\<rparr>) = Some (GoodPerformance ?d55)"
    using main m by (simp only: five)
  have b: "starCount (fst (handleGoodPerformance ?d55 7000 ?sf ?g)) = Num 850
      \<and> enableGlow (config (renderer (fst (handleGoodPerformance ?d55 7000 ?sf ?g))))
      \<and> enableTrails (config (renderer (fst (handleGoodPerformance ?d55 7000 ?sf ?g))))
      \<and> skipFrames (renderingOptimizations (fst (handleGoodPerformance ?d55 7000 ?sf ?g))) = 0"
    using main c o po dark by simp
  have e: "handleGoodPerformance ?d55 4999 ?sf ?g = (?sf, ?g)"
    using early po by simp
  have c750: "starCount ?sf = Num 750"
    using c by simp
  show ?thesis
    using a b e c750 by (simp only: ev)
qed

subsection \<open>Rotation bounds\<close>


























subsection \<open>Colour transition\<close>












end
